theory Spec2Isabelle
  imports Complex_Main
begin

section \<open>JavaScript values\<close>

text \<open>
  The scorer of \<^verbatim>\<open>assets/js/redispatch-risk-scorer.js\<close> and the snapshot builder of
  \<^verbatim>\<open>assets/js/risk-calculator.js\<close> (\<^verbatim>\<open>updateRiskAssessmentChart\<close>) compute on JavaScript
  numbers. Numbers are modelled as reals, so arithmetic is exact. A property that may be
  missing from an object is an option, \<open>None\<close> standing for \<^verbatim>\<open>undefined\<close>; the falsy
  numbers of the model are \<^verbatim>\<open>undefined\<close> and \<open>0\<close>.
\<close>

definition or_default :: "real option \<Rightarrow> real \<Rightarrow> real" where
  \<comment> \<open>\<^verbatim>\<open>value || dflt\<close>\<close>
  "or_default v dflt = (case v of None \<Rightarrow> dflt | Some x \<Rightarrow> if x = 0 then dflt else x)"

definition Math_round :: "real \<Rightarrow> real" where
  \<comment> \<open>\<^verbatim>\<open>Math.round\<close>: the nearest integer, a tie going up\<close>
  "Math_round x = of_int \<lfloor>x + 1 / 2\<rfloor>"

definition num :: "real option \<Rightarrow> real" where
  \<comment> \<open>the number a sub-score counts as in arithmetic and comparisons: \<^verbatim>\<open>null\<close> is \<open>0\<close>\<close>
  "num s = (case s of None \<Rightarrow> 0 | Some x \<Rightarrow> x)"

definition js_sub :: "real option \<Rightarrow> real option \<Rightarrow> real option" where
  \<comment> \<open>\<^verbatim>\<open>a - b\<close> on properties that may be \<^verbatim>\<open>undefined\<close>; the result \<open>None\<close> is \<^verbatim>\<open>NaN\<close>\<close>
  "js_sub a b = (case a of None \<Rightarrow> None | Some x \<Rightarrow> (case b of None \<Rightarrow> None | Some y \<Rightarrow> Some (x - y)))"

definition js_lt :: "real option \<Rightarrow> real \<Rightarrow> bool" where
  \<comment> \<open>\<^verbatim>\<open>m < c\<close>, false when \<open>m\<close> is \<^verbatim>\<open>NaN\<close>\<close>
  "js_lt m c = (case m of None \<Rightarrow> False | Some x \<Rightarrow> x < c)"

section \<open>The scorer's data\<close>

record RiskInput =
  hour :: int
  dayOfWeek :: int
  systemLoad :: "real option"
  pvGeneration :: "real option"
  windGeneration :: "real option"
  baseloadGeneration :: "real option"
  powerExchange :: "real option"
  availableReserve :: "real option"
  requiredReserve :: "real option"
  hasReserveData :: "bool option"
  pvDelta :: "real option"
  windDelta :: "real option"
  baseloadDelta :: "real option"
  demandDelta :: "real option"
  pvGradient :: "real option"
  windGradient :: "real option"

datatype factor_key =
  reserveMargin | renewableDropRate | baseloadSurge | demandSpike | criticalHours | systemImbalance

definition all_keys :: "factor_key list" where
  \<comment> \<open>the keys in the order the constructor and \<^verbatim>\<open>calculateRiskScore\<close> write them\<close>
  "all_keys = [reserveMargin, renewableDropRate, baseloadSurge, demandSpike, criticalHours, systemImbalance]"

definition weights :: "factor_key \<Rightarrow> real" where
  \<comment> \<open>\<^verbatim>\<open>this.weights\<close>, set by the constructor and never written again\<close>
  "weights k = (case k of
      reserveMargin \<Rightarrow> 35
    | renewableDropRate \<Rightarrow> 25
    | baseloadSurge \<Rightarrow> 15
    | demandSpike \<Rightarrow> 10
    | criticalHours \<Rightarrow> 10
    | systemImbalance \<Rightarrow> 5)"

definition thresholds_low :: real where "thresholds_low = 25"
definition thresholds_medium :: real where "thresholds_medium = 50"
definition thresholds_high :: real where "thresholds_high = 75"
definition thresholds_critical :: real where "thresholds_critical = 100"

definition Object_keys :: "(factor_key \<rightharpoonup> 'a) \<Rightarrow> factor_key list" where
  "Object_keys m = filter (\<lambda>k. m k \<noteq> None) all_keys"

definition Object_entries :: "(factor_key \<rightharpoonup> 'a) \<Rightarrow> (factor_key \<times> 'a) list" where
  "Object_entries m = List.map_filter (\<lambda>k. map_option (Pair k) (m k)) all_keys"

definition Object_values :: "(factor_key \<rightharpoonup> 'a) \<Rightarrow> 'a list" where
  "Object_values m = map snd (Object_entries m)"

text \<open>
  The object \<^verbatim>\<open>scores\<close> always has the six keys; a value is a number or \<^verbatim>\<open>null\<close>
  (\<open>None\<close>). It is a function of the key.
\<close>

type_synonym scores = "factor_key \<Rightarrow> real option"

definition scores_values :: "scores \<Rightarrow> real option list" where
  \<comment> \<open>\<^verbatim>\<open>Object.values(scores)\<close>\<close>
  "scores_values sc = map sc all_keys"

section \<open>Sub-scores\<close>

definition calculateReserveMarginScore :: "RiskInput \<Rightarrow> real option" where
  "calculateReserveMarginScore data =
    (case availableReserve data of
       None \<Rightarrow> None
     | Some availableReserve' \<Rightarrow>
        (case requiredReserve data of
           None \<Rightarrow> None
         | Some requiredReserve' \<Rightarrow>
            (let margin = availableReserve' - requiredReserve' in
             if margin < 0 then Some 100
             else if margin < 300 then Some 85
             else if margin < 500 then Some 65
             else if margin < 1000 then Some 40
             else if margin < 1500 then Some 20
             else Some 0)))"

text \<open>
  A sub-score function first reads its properties, each through \<^verbatim>\<open>||\<close> and its fallback,
  into constants, and then computes on these numbers. The two steps are two definitions:
  \<^verbatim>\<open>renewableDropOf\<close>, \<^verbatim>\<open>baseloadSurgeOf\<close>, \<^verbatim>\<open>demandSpikeOf\<close> and \<^verbatim>\<open>systemImbalanceOf\<close>
  are the lines after the reads, as functions of the constants.
\<close>

definition renewableDropOf :: "real \<Rightarrow> real \<Rightarrow> real \<Rightarrow> real \<Rightarrow> real" where
  \<comment> \<open>lines 108 and 113 to 143 of \<^verbatim>\<open>calculateRenewableDropScore\<close>\<close>
  "renewableDropOf pvDelta' windDelta' pvGradient' windGradient' =
    (let totalRenewableDrop = min 0 (pvDelta' + windDelta');
         totalGradient = pvGradient' + windGradient';
         score = (if totalRenewableDrop < -2000 then 100
                  else if totalRenewableDrop < -1500 then 80
                  else if totalRenewableDrop < -1000 then 60
                  else if totalRenewableDrop < -500 then 40
                  else if totalRenewableDrop < -200 then 20
                  else 0)
     in if \<bar>totalGradient\<bar> > 500 then min 100 (score + 20) else score)"

definition calculateRenewableDropScore :: "RiskInput \<Rightarrow> real" where
  "calculateRenewableDropScore data =
    (let pvDelta' = or_default (pvDelta data) 0;
         windDelta' = or_default (windDelta data) 0;
         pvGradient' = or_default (pvGradient data) 0;
         windGradient' = or_default (windGradient data) 0
     in renewableDropOf pvDelta' windDelta' pvGradient' windGradient')"

definition baseloadSurgeOf :: "real \<Rightarrow> int \<Rightarrow> real" where
  \<comment> \<open>lines 150 to 161 of \<^verbatim>\<open>calculateBaseloadSurgeScore\<close>\<close>
  "baseloadSurgeOf baseloadDelta' hour' =
    (let isEvening = (hour' \<ge> 16 \<and> hour' \<le> 20)
     in if \<not> isEvening then (if baseloadDelta' > 500 then 20 else 0)
        else if baseloadDelta' > 1500 then 100
        else if baseloadDelta' > 1000 then 70
        else if baseloadDelta' > 500 then 40
        else if baseloadDelta' > 200 then 20
        else 0)"

definition calculateBaseloadSurgeScore :: "RiskInput \<Rightarrow> real" where
  "calculateBaseloadSurgeScore data =
    (let baseloadDelta' = or_default (baseloadDelta data) 0;
         hour' = hour data
     in baseloadSurgeOf baseloadDelta' hour')"

definition demandSpikeOf :: "real \<Rightarrow> real \<Rightarrow> real" where
  \<comment> \<open>lines 167 to 174 of \<^verbatim>\<open>calculateDemandSpikeScore\<close>. A division by 0 is written out:
      JavaScript gives \<^verbatim>\<open>Infinity\<close>, above every breakpoint, for a positive dividend, and
      \<^verbatim>\<open>NaN\<close> or \<^verbatim>\<open>-Infinity\<close>, above none, otherwise.\<close>
  "demandSpikeOf demandDelta' systemLoad' =
    (if systemLoad' = 0 then (if demandDelta' > 0 then 100 else 0)
     else
      (let demandChangeRate = (demandDelta' / systemLoad') * 100
       in if demandChangeRate > 5 then 100
          else if demandChangeRate > 3 then 60
          else if demandChangeRate > 2 then 30
          else if demandChangeRate > 1 then 15
          else 0))"

definition calculateDemandSpikeScore :: "RiskInput \<Rightarrow> real" where
  "calculateDemandSpikeScore data =
    (let demandDelta' = or_default (demandDelta data) 0;
         systemLoad' = or_default (systemLoad data) 20000
     in demandSpikeOf demandDelta' systemLoad')"

definition calculateCriticalHoursScore :: "RiskInput \<Rightarrow> real" where
  "calculateCriticalHoursScore data =
    (let isWeekday = (dayOfWeek data \<ge> 1 \<and> dayOfWeek data \<le> 5)
     in if \<not> isWeekday then 0
        else if hour data \<ge> 7 \<and> hour data \<le> 9 then 60
        else if hour data \<ge> 17 \<and> hour data \<le> 20 then 100
        else if (hour data \<ge> 6 \<and> hour data \<le> 10) \<or> (hour data \<ge> 16 \<and> hour data \<le> 21) then 30
        else 0)"

definition systemImbalanceOf :: "real \<Rightarrow> real" where
  \<comment> \<open>lines 193 to 199 of \<^verbatim>\<open>calculateSystemImbalanceScore\<close>\<close>
  "systemImbalanceOf exchange =
    (let absExchange = \<bar>exchange\<bar>
     in if absExchange > 3000 then 100
        else if absExchange > 2000 then 60
        else if absExchange > 1000 then 30
        else 0)"

definition calculateSystemImbalanceScore :: "RiskInput \<Rightarrow> real" where
  "calculateSystemImbalanceScore data =
    (let exchange = or_default (powerExchange data) 0
     in systemImbalanceOf exchange)"

section \<open>Synergy bonus and risk level\<close>

definition countFactors :: "real option list \<Rightarrow> nat \<times> nat" where
  \<comment> \<open>the \<^verbatim>\<open>forEach\<close> of \<^verbatim>\<open>calculateSynergyBonus\<close>: (criticalFactors, highFactors)\<close>
  "countFactors vs =
     foldl (\<lambda>(criticalFactors, highFactors) score.
              (case score of
                 None \<Rightarrow> (criticalFactors, highFactors)
               | Some s \<Rightarrow> if s \<ge> 80 then (criticalFactors + 1, highFactors)
                           else if s \<ge> 50 then (criticalFactors, highFactors + 1)
                           else (criticalFactors, highFactors)))
           (0, 0) vs"

definition calculateSynergyBonus :: "scores \<Rightarrow> real" where
  "calculateSynergyBonus sc =
    (let (criticalFactors, highFactors) = countFactors (scores_values sc)
     in if criticalFactors \<ge> 3 then 15
        else if criticalFactors \<ge> 2 then 10
        else if criticalFactors \<ge> 1 \<and> highFactors \<ge> 2 then 8
        else if highFactors \<ge> 3 then 5
        else 0)"

definition getRiskLevel :: "real \<Rightarrow> string" where
  "getRiskLevel score =
    (if score \<le> thresholds_low then ''low''
     else if score \<le> thresholds_medium then ''medium''
     else if score \<le> thresholds_high then ''high''
     else ''critical'')"

section \<open>Factor descriptors\<close>

text \<open>
  The texts of the source are Polish and carry emoji; a label and an advisory are
  constructors named after their text. The \<^verbatim>\<open>value\<close> of a descriptor is a template string
  around \<^verbatim>\<open>toFixed(0)\<close> of a number; the model keeps the template and the number.
\<close>

datatype label =
    Deficyt_rezerwy                \<comment> \<open>\<^verbatim>\<open>'Deficyt rezerwy!'\<close>\<close>
  | Krytycznie_niski_margines      \<comment> \<open>\<^verbatim>\<open>'Krytycznie niski margines'\<close>\<close>
  | Bardzo_niski_margines          \<comment> \<open>\<^verbatim>\<open>'Bardzo niski margines'\<close>\<close>
  | Niski_margines_rezerwy         \<comment> \<open>\<^verbatim>\<open>'Niski margines rezerwy'\<close>\<close>
  | Brak_danych_o_rezerwach        \<comment> \<open>\<^verbatim>\<open>'Brak danych o rezerwach'\<close>\<close>
  | Gwaltowny_spadek_OZE           \<comment> \<open>\<^verbatim>\<open>'Gwaltowny spadek OZE!'\<close>\<close>
  | Spadek_generacji_OZE           \<comment> \<open>\<^verbatim>\<open>'Spadek generacji OZE'\<close>\<close>
  | Gwaltowny_wzrost_JW_RB         \<comment> \<open>\<^verbatim>\<open>'Gwaltowny wzrost JW RB!'\<close>\<close>
  | Wzrost_generacji_JW_RB         \<comment> \<open>\<^verbatim>\<open>'Wzrost generacji JW RB'\<close>\<close>
  | Wzrost_zapotrzebowania         \<comment> \<open>\<^verbatim>\<open>'Wzrost zapotrzebowania'\<close>\<close>
  | Szczyt_wieczorny               \<comment> \<open>\<^verbatim>\<open>'Szczyt wieczorny'\<close>\<close>
  | Godzina_szczytowa              \<comment> \<open>\<^verbatim>\<open>'Godzina szczytowa'\<close>\<close>

datatype value_text =
    NA                             \<comment> \<open>\<^verbatim>\<open>'N/A'\<close>\<close>
  | MW "real option"               \<comment> \<open>\<^verbatim>\<open>`${margin.toFixed(0)} MW`\<close>, \<open>None\<close> for \<^verbatim>\<open>NaN\<close>\<close>
  | MW_per_h real                  \<comment> \<open>\<^verbatim>\<open>`${totalDelta.toFixed(0)} MW/h`\<close>\<close>
  | Plus_MW real                   \<comment> \<open>\<^verbatim>\<open>`+${delta.toFixed(0)} MW`\<close>\<close>
  | Clock int                      \<comment> \<open>\<^verbatim>\<open>`${data.hour}:00`\<close>\<close>

record descriptor =
  factor :: label
  value_text :: value_text
  impact :: real
  icon :: string
  critical :: "bool option"
  info :: "bool option"

fun insert_by :: "('a \<Rightarrow> 'a \<Rightarrow> real) \<Rightarrow> 'a \<Rightarrow> 'a list \<Rightarrow> 'a list" where
  "insert_by cmp x [] = [x]"
| "insert_by cmp x (y # ys) = (if cmp x y \<le> 0 then x # y # ys else y # insert_by cmp x ys)"

definition Array_sort :: "('a \<Rightarrow> 'a \<Rightarrow> real) \<Rightarrow> 'a list \<Rightarrow> 'a list" where
  \<comment> \<open>\<^verbatim>\<open>Array.prototype.sort(cmp)\<close>, a stable sort: \<open>a\<close> stays before \<open>b\<close> unless \<open>cmp a b > 0\<close>\<close>
  "Array_sort cmp xs = foldr (insert_by cmp) xs []"

definition factor_order :: "descriptor \<Rightarrow> descriptor \<Rightarrow> real" where
  \<comment> \<open>the comparator of \<^verbatim>\<open>getDetailedFactors\<close>\<close>
  "factor_order a b =
     (if info a = Some True then 1
      else if info b = Some True then -1
      else impact b - impact a)"

definition getDetailedFactors :: "scores \<Rightarrow> RiskInput \<Rightarrow> bool \<Rightarrow> descriptor list" where
  "getDetailedFactors sc data has =
    (let factors0 = [];
         factors1 =
          (if has \<and> sc reserveMargin \<noteq> None \<and> num (sc reserveMargin) > 0 then
             (let margin = js_sub (availableReserve data) (requiredReserve data) in
              factors0 @
              [\<lparr>factor = (if js_lt margin 0 then Deficyt_rezerwy
                          else if js_lt margin 300 then Krytycznie_niski_margines
                          else if js_lt margin 500 then Bardzo_niski_margines
                          else Niski_margines_rezerwy),
                value_text = MW margin,
                impact = Math_round (num (sc reserveMargin) * weights reserveMargin / 100),
                icon = ''activity'',
                critical = Some (js_lt margin 300),
                info = None\<rparr>])
           else if \<not> has then
             factors0 @
             [\<lparr>factor = Brak_danych_o_rezerwach, value_text = NA, impact = 0,
               icon = ''help-circle'', critical = None, info = Some True\<rparr>]
           else factors0);
         factors2 =
          (if num (sc renewableDropRate) > 0 then
             (let totalDelta = or_default (pvDelta data) 0 + or_default (windDelta data) 0 in
              factors1 @
              [\<lparr>factor = (if \<bar>totalDelta\<bar> > 1500 then Gwaltowny_spadek_OZE else Spadek_generacji_OZE),
                value_text = MW_per_h totalDelta,
                impact = Math_round (num (sc renewableDropRate) *
                           (if has then weights renewableDropRate else 38) / 100),
                icon = ''trending-down'',
                critical = Some (\<bar>totalDelta\<bar> > 1500),
                info = None\<rparr>])
           else factors1);
         factors3 =
          (if num (sc baseloadSurge) > 0 then
             (let baseloadDelta' = or_default (baseloadDelta data) 0 in
              factors2 @
              [\<lparr>factor = (if baseloadDelta' > 1000 then Gwaltowny_wzrost_JW_RB else Wzrost_generacji_JW_RB),
                value_text = Plus_MW baseloadDelta',
                impact = Math_round (num (sc baseloadSurge) *
                           (if has then weights baseloadSurge else 23) / 100),
                icon = ''zap'',
                critical = Some (baseloadDelta' > 1000 \<and> hour data \<ge> 16 \<and> hour data \<le> 20),
                info = None\<rparr>])
           else factors2);
         factors4 =
          (if num (sc demandSpike) > 0 then
             (let demandDelta' = or_default (demandDelta data) 0 in
              factors3 @
              [\<lparr>factor = Wzrost_zapotrzebowania,
                value_text = Plus_MW demandDelta',
                impact = Math_round (num (sc demandSpike) *
                           (if has then weights demandSpike else 15) / 100),
                icon = ''trending-up'',
                critical = None,
                info = None\<rparr>])
           else factors3);
         factors5 =
          (if num (sc criticalHours) > 0 then
             factors4 @
             [\<lparr>factor = (if hour data \<ge> 17 \<and> hour data \<le> 20 then Szczyt_wieczorny else Godzina_szczytowa),
               value_text = Clock (hour data),
               impact = Math_round (num (sc criticalHours) *
                          (if has then weights criticalHours else 15) / 100),
               icon = ''clock'',
               critical = None,
               info = None\<rparr>]
           else factors4)
     in Array_sort factor_order factors5)"

section \<open>Recommendations\<close>

datatype advisory =
    Brak_danych_o_rezerwach_mocy   \<comment> \<open>\<^verbatim>\<open>'Brak danych o rezerwach mocy - analiza oparta na pozostalych wskaznikach'\<close>\<close>
  | ALERT_Krytyczny_margines       \<comment> \<open>\<^verbatim>\<open>'ALERT: Krytyczny margines rezerwy! Wysokie prawdopodobienstwo wezwania'\<close>\<close>
  | Niski_margines                 \<comment> \<open>\<^verbatim>\<open>'Niski margines rezerwy - przygotuj sie na mozliwe wezwanie'\<close>\<close>
  | Gwaltowny_spadek               \<comment> \<open>\<^verbatim>\<open>'Gwaltowny spadek OZE - system potrzebuje szybkiego bilansowania'\<close>\<close>
  | Wieczorny_wzrost               \<comment> \<open>\<^verbatim>\<open>'Wieczorny wzrost JW RB - typowy sygnal nadchodzacego wezwania'\<close>\<close>
  | Godziny_szczytowe              \<comment> \<open>\<^verbatim>\<open>'Godziny szczytowe - zwieksz czujnosc na komunikaty OSP'\<close>\<close>
  | Rozwaz_redukcje                \<comment> \<open>\<^verbatim>\<open>'Rozwaz natychmiastowa redukcje sprzedazy na TGE'\<close>\<close>
  | Monitoruj_sytuacje             \<comment> \<open>\<^verbatim>\<open>'Monitoruj sytuacje i przygotuj plan redukcji'\<close>\<close>
  | Analiza_ograniczona            \<comment> \<open>\<^verbatim>\<open>'Analiza ograniczona - bazuje na trendach OZE i zapotrzebowania'\<close>\<close>
  | Sytuacja_stabilna              \<comment> \<open>\<^verbatim>\<open>'Sytuacja stabilna - niskie ryzyko wezwania'\<close>\<close>

definition includes_Brak_danych :: "advisory \<Rightarrow> bool" where
  \<comment> \<open>\<^verbatim>\<open>.includes('Brak danych')\<close>: one text has that substring\<close>
  "includes_Brak_danych a = (a = Brak_danych_o_rezerwach_mocy)"

definition thresholdAdvisories :: "scores \<Rightarrow> RiskInput \<Rightarrow> bool \<Rightarrow> advisory list" where
  \<comment> \<open>what \<^verbatim>\<open>getRecommendations\<close> pushes between the information line and the two closing checks\<close>
  "thresholdAdvisories sc data has =
    (let r0 = [];
         r1 =
          (if has \<and> sc reserveMargin \<noteq> None then
             (let margin = js_sub (availableReserve data) (requiredReserve data) in
              if num (sc reserveMargin) \<ge> 80 \<or> js_lt margin 300 then r0 @ [ALERT_Krytyczny_margines]
              else if num (sc reserveMargin) \<ge> 50 then r0 @ [Niski_margines]
              else r0)
           else r0);
         r2 = (if num (sc renewableDropRate) \<ge> 60 then r1 @ [Gwaltowny_spadek] else r1);
         r3 = (if num (sc baseloadSurge) \<ge> 50 \<and> hour data \<ge> 16 \<and> hour data \<le> 20
               then r2 @ [Wieczorny_wzrost] else r2);
         r4 = (if num (sc criticalHours) > 0 \<and> (\<not> has \<or> num (sc reserveMargin) > 30)
               then r3 @ [Godziny_szczytowe] else r3);
         threatLevel0 = 0;
         threatLevel1 =
          (if has \<and> sc reserveMargin \<noteq> None
           then threatLevel0 + num (sc reserveMargin) * weights reserveMargin / 100
           else threatLevel0);
         threatLevel2 = threatLevel1 +
           num (sc renewableDropRate) * (if has then weights renewableDropRate else 38) / 100;
         threatLevel = threatLevel2 +
           num (sc baseloadSurge) * (if has then weights baseloadSurge else 23) / 100
     in if threatLevel \<ge> 70 then r4 @ [Rozwaz_redukcje]
        else if threatLevel \<ge> 50 then r4 @ [Monitoruj_sytuacje]
        else r4)"

definition getRecommendations :: "scores \<Rightarrow> RiskInput \<Rightarrow> bool \<Rightarrow> advisory list" where
  "getRecommendations sc data has =
    (let recommendations0 = (if \<not> has then [Brak_danych_o_rezerwach_mocy] else []);
         recommendations1 = recommendations0 @ thresholdAdvisories sc data has;
         recommendations2 =
          (if length recommendations1 = 1 \<and> includes_Brak_danych (recommendations1 ! 0)
           then recommendations1 @ [Analiza_ograniczona] else recommendations1)
     in if length recommendations2 = 0 then recommendations2 @ [Sytuacja_stabilna]
        else recommendations2)"

section \<open>The score\<close>

record RiskScore =
  totalScore :: real
  components :: scores
  riskLevel :: string
  recommendations :: "advisory list"
  factors :: "descriptor list"
  hasReserveData_out :: bool
  dataQuality :: string

definition hasReserve :: "RiskInput \<Rightarrow> bool" where
  \<comment> \<open>the local \<^verbatim>\<open>hasReserveData\<close> of \<^verbatim>\<open>calculateRiskScore\<close>\<close>
  "hasReserve data =
     (hasReserveData data \<noteq> Some False \<and> availableReserve data \<noteq> None \<and> requiredReserve data \<noteq> None)"

definition componentScores :: "RiskInput \<Rightarrow> scores" where
  \<comment> \<open>the object \<^verbatim>\<open>scores\<close>\<close>
  "componentScores data k = (case k of
      reserveMargin \<Rightarrow> (if hasReserve data then calculateReserveMarginScore data else None)
    | renewableDropRate \<Rightarrow> Some (calculateRenewableDropScore data)
    | baseloadSurge \<Rightarrow> Some (calculateBaseloadSurgeScore data)
    | demandSpike \<Rightarrow> Some (calculateDemandSpikeScore data)
    | criticalHours \<Rightarrow> Some (calculateCriticalHoursScore data)
    | systemImbalance \<Rightarrow> Some (calculateSystemImbalanceScore data))"

definition activeWeights :: "bool \<Rightarrow> (factor_key \<rightharpoonup> real)" where
  \<comment> \<open>the object \<^verbatim>\<open>activeWeights\<close> when the loop over it starts\<close>
  "activeWeights has =
    (let activeWeights0 = (\<lambda>k. Some (weights k)) in
     if \<not> has then
       (let reserveWeight = weights reserveMargin;
            activeWeights1 = activeWeights0(reserveMargin := None);
            remainingWeightSum = foldl (\<lambda>a b. a + b) 0 (Object_values activeWeights1)
        in foldl (\<lambda>m key. case m key of
                     None \<Rightarrow> m
                   | Some w \<Rightarrow> m(key \<mapsto> w + (w / remainingWeightSum) * reserveWeight))
                 activeWeights1 (Object_keys activeWeights1))
     else activeWeights0)"

definition weightedSum :: "scores \<Rightarrow> (factor_key \<rightharpoonup> real) \<Rightarrow> real" where
  \<comment> \<open>the loop of \<^verbatim>\<open>calculateRiskScore\<close> over \<^verbatim>\<open>Object.entries(activeWeights)\<close>\<close>
  "weightedSum sc aw =
     foldl (\<lambda>totalScore (key, weight).
              (case sc key of
                 None \<Rightarrow> totalScore
               | Some s \<Rightarrow> totalScore + (s * weight) / 100))
           0 (Object_entries aw)"

definition calculateRiskScore :: "RiskInput \<Rightarrow> RiskScore" where
  "calculateRiskScore data =
    (let has = hasReserve data;
         sc = componentScores data;
         totalScore0 = weightedSum sc (activeWeights has);
         synergy = calculateSynergyBonus sc;
         totalScore1 = min 100 (Math_round (totalScore0 + synergy))
     in \<lparr>totalScore = totalScore1,
         components = sc,
         riskLevel = getRiskLevel totalScore1,
         recommendations = getRecommendations sc data has,
         factors = getDetailedFactors sc data has,
         hasReserveData_out = has,
         dataQuality = (if has then ''complete'' else ''partial'')\<rparr>)"

section \<open>The snapshot builder\<close>

text \<open>
  \<^verbatim>\<open>updateRiskAssessmentChart\<close> builds one \<^verbatim>\<open>scoreData\<close> per cell of the grid from the
  hourly series of \<^verbatim>\<open>data\<close>. A series is an array of records of which the builder reads
  one numeric field; it is modelled as the list of that field, \<open>None\<close> where the entry or
  its field is missing, and the whole series is \<open>None\<close> when \<^verbatim>\<open>data\<close> has no such array.
\<close>

type_synonym series = "real option list option"

record GridData =
  systemLoad_series :: series        \<comment> \<open>\<^verbatim>\<open>data.systemLoad[i].load\<close>\<close>
  pvGeneration_series :: series      \<comment> \<open>\<^verbatim>\<open>data.pvGeneration[i].totalPower\<close>\<close>
  windGeneration_series :: series    \<comment> \<open>\<^verbatim>\<open>data.windGeneration[i].totalPower\<close>\<close>
  fullGenerationData :: series       \<comment> \<open>\<^verbatim>\<open>data.fullGenerationData[i].gen_rb\<close>\<close>
  systemBalance :: series            \<comment> \<open>\<^verbatim>\<open>data.systemBalance[i].powerExchange\<close>\<close>

record ReservesData =
  reserves :: "real option list option"
  required :: "real option list option"

definition arr_at :: "'a option list \<Rightarrow> int \<Rightarrow> 'a option" where
  \<comment> \<open>\<^verbatim>\<open>xs[i]\<close>: \<^verbatim>\<open>undefined\<close> outside the array\<close>
  "arr_at xs i = (if 0 \<le> i \<and> i < int (length xs) then xs ! nat i else None)"

definition field_at :: "series \<Rightarrow> int \<Rightarrow> real option" where
  \<comment> \<open>\<^verbatim>\<open>data.s?.[i]?.f\<close>\<close>
  "field_at s i = (case s of None \<Rightarrow> None | Some xs \<Rightarrow> arr_at xs i)"

definition buildScoreData :: "GridData \<Rightarrow> ReservesData option \<Rightarrow> int \<Rightarrow> int \<Rightarrow> int \<Rightarrow> RiskInput" where
  "buildScoreData data reservesData dayOffset hour' dayOfWeek' =
    (let systemLoad0 = or_default (field_at (systemLoad_series data) hour') 20000;
         pvGeneration0 = or_default (field_at (pvGeneration_series data) hour') 0;
         windGeneration0 = or_default (field_at (windGeneration_series data) hour') 0;
         baseloadGeneration0 =
          (case fullGenerationData data of
             None \<Rightarrow> 10000
           | Some xs \<Rightarrow> if length xs > 0 then or_default (arr_at xs (hour' * 4)) 10000 else 10000);
         powerExchange0 = or_default (field_at (systemBalance data) hour') 0;
         (availableReserve', requiredReserve', hasReserveData') =
          (case reservesData of
             None \<Rightarrow> (None, None, False)
           | Some rd \<Rightarrow>
              (case reserves rd of
                 None \<Rightarrow> (None, None, False)
               | Some res \<Rightarrow>
                  (case required rd of
                     None \<Rightarrow> (None, None, False)
                   | Some req \<Rightarrow>
                      (let reserveIndex = dayOffset * 24 + hour' in
                       if reserveIndex < int (length res) \<and> arr_at res reserveIndex \<noteq> None \<and>
                          arr_at req reserveIndex \<noteq> None
                       then (arr_at res reserveIndex, arr_at req reserveIndex, True)
                       else (None, None, False)))));
         (pvDelta0, windDelta0, baseloadDelta0, demandDelta0, pvGradient0, windGradient0) =
          (if hour' > 0 then
             (let prevPV = or_default (field_at (pvGeneration_series data) (hour' - 1)) pvGeneration0;
                  pvDelta1 = pvGeneration0 - prevPV;
                  prevWind = or_default (field_at (windGeneration_series data) (hour' - 1)) windGeneration0;
                  windDelta1 = windGeneration0 - prevWind;
                  baseloadDelta1 =
                   (case fullGenerationData data of
                      None \<Rightarrow> 0
                    | Some xs \<Rightarrow>
                       (let prevQuarterIndex = (hour' - 1) * 4;
                            prevBaseload = or_default (arr_at xs prevQuarterIndex) baseloadGeneration0
                        in baseloadGeneration0 - prevBaseload));
                  prevLoad = or_default (field_at (systemLoad_series data) (hour' - 1)) systemLoad0;
                  demandDelta1 = systemLoad0 - prevLoad;
                  (pvGradient1, windGradient1) =
                   (if hour' > 1 then
                      (let prevPrevPV = or_default (field_at (pvGeneration_series data) (hour' - 2)) pvGeneration0;
                           prevPrevWind = or_default (field_at (windGeneration_series data) (hour' - 2)) windGeneration0
                       in (pvDelta1 - (prevPV - prevPrevPV), windDelta1 - (prevWind - prevPrevWind)))
                    else (0, 0))
              in (pvDelta1, windDelta1, baseloadDelta1, demandDelta1, pvGradient1, windGradient1))
           else (0, 0, 0, 0, 0, 0));
         (pvGeneration1, windGeneration1, systemLoad1, pvDelta2, windDelta2) =
          (if dayOffset > 0 then
             (let decayFactor = exp (- real_of_int dayOffset * 0.1);
                  volatility = 1 + real_of_int dayOffset * 0.2
              in (pvGeneration0 * decayFactor, windGeneration0 * decayFactor,
                  systemLoad0 * (1 + real_of_int dayOffset * 0.005),
                  pvDelta0 * volatility, windDelta0 * volatility))
           else (pvGeneration0, windGeneration0, systemLoad0, pvDelta0, windDelta0))
     in \<lparr>hour = hour',
         dayOfWeek = dayOfWeek',
         systemLoad = Some systemLoad1,
         pvGeneration = Some pvGeneration1,
         windGeneration = Some windGeneration1,
         baseloadGeneration = Some baseloadGeneration0,
         powerExchange = Some powerExchange0,
         availableReserve = availableReserve',
         requiredReserve = requiredReserve',
         hasReserveData = Some hasReserveData',
         pvDelta = Some pvDelta2,
         windDelta = Some windDelta2,
         baseloadDelta = Some baseloadDelta0,
         demandDelta = Some demandDelta0,
         pvGradient = Some pvGradient0,
         windGradient = Some windGradient0\<rparr>)"

section \<open>Notions used in the statements\<close>

definition contribution :: "scores \<Rightarrow> factor_key \<Rightarrow> real \<Rightarrow> real" where
  \<comment> \<open>what one entry of \<^verbatim>\<open>activeWeights\<close> adds to \<^verbatim>\<open>totalScore\<close> in the loop\<close>
  "contribution sc k w = (case sc k of None \<Rightarrow> 0 | Some s \<Rightarrow> (s * w) / 100)"

definition isCritical :: "real option \<Rightarrow> bool" where
  \<comment> \<open>a sub-score that is a number and at least 80\<close>
  "isCritical s = (case s of None \<Rightarrow> False | Some v \<Rightarrow> v \<ge> 80)"

definition remaining_keys :: "factor_key list" where
  \<comment> \<open>the keys left once \<^verbatim>\<open>reserveMargin\<close> is deleted\<close>
  "remaining_keys = [renewableDropRate, baseloadSurge, demandSpike, criticalHours, systemImbalance]"

definition scenario_evening_peak :: RiskInput where
  \<comment> \<open>a weekday evening with a reserve deficit; the properties not listed are missing\<close>
  "scenario_evening_peak =
     \<lparr>hour = 18, dayOfWeek = 3, systemLoad = Some 22000, pvGeneration = Some 500,
      windGeneration = Some 300, baseloadGeneration = Some 15000, powerExchange = Some 500,
      availableReserve = Some 200, requiredReserve = Some 1200, hasReserveData = None,
      pvDelta = Some (- 1800), windDelta = Some (- 300), baseloadDelta = Some 1600,
      demandDelta = Some 900, pvGradient = None, windGradient = None\<rparr>"

definition boundary_input :: RiskInput where
  \<comment> \<open>five sub-scores at 100 and \<^verbatim>\<open>systemImbalance\<close> at 0: the weighted sum is 95\<close>
  "boundary_input = scenario_evening_peak\<lparr>demandDelta := Some 2500\<rparr>"

definition scenario_no_reserve :: RiskInput where
  \<comment> \<open>the evening peak without the two reserve properties\<close>
  "scenario_no_reserve = scenario_evening_peak\<lparr>availableReserve := None, requiredReserve := None\<rparr>"

definition scenario_quiet_weekend :: RiskInput where
  \<comment> \<open>a night hour of a Sunday, nothing moving, no reserve data\<close>
  "scenario_quiet_weekend =
     \<lparr>hour = 3, dayOfWeek = 0, systemLoad = Some 18000, pvGeneration = Some 0,
      windGeneration = Some 2000, baseloadGeneration = Some 12000, powerExchange = Some 0,
      availableReserve = None, requiredReserve = None, hasReserveData = Some False,
      pvDelta = Some 0, windDelta = Some 0, baseloadDelta = Some 0,
      demandDelta = Some 0, pvGradient = Some 0, windGradient = Some 0\<rparr>"

definition scenario_quiet_with_reserve :: RiskInput where
  \<comment> \<open>the same hour with an ample reserve margin\<close>
  "scenario_quiet_with_reserve =
     scenario_quiet_weekend\<lparr>availableReserve := Some 4000, requiredReserve := Some 1500,
       hasReserveData := Some True\<rparr>"

definition described_keys :: "factor_key list" where
  \<comment> \<open>the factors \<^verbatim>\<open>getDetailedFactors\<close> has a descriptor for\<close>
  "described_keys = [reserveMargin, renewableDropRate, baseloadSurge, demandSpike, criticalHours]"

definition descriptor_weight :: "bool \<Rightarrow> factor_key \<Rightarrow> real" where
  \<comment> \<open>the weight \<^verbatim>\<open>getDetailedFactors\<close> multiplies a sub-score by\<close>
  "descriptor_weight has k =
     (if has then weights k
      else (case k of
              renewableDropRate \<Rightarrow> 38
            | baseloadSurge \<Rightarrow> 23
            | demandSpike \<Rightarrow> 15
            | criticalHours \<Rightarrow> 15
            | _ \<Rightarrow> weights k))"

definition descriptor_icon :: "factor_key \<Rightarrow> string" where
  \<comment> \<open>the icon that tells the descriptor of a factor from the others\<close>
  "descriptor_icon k =
     (case k of
        reserveMargin \<Rightarrow> ''activity''
      | renewableDropRate \<Rightarrow> ''trending-down''
      | baseloadSurge \<Rightarrow> ''zap''
      | demandSpike \<Rightarrow> ''trending-up''
      | criticalHours \<Rightarrow> ''clock''
      | systemImbalance \<Rightarrow> '''')"

definition is_info :: "descriptor \<Rightarrow> bool" where
  \<comment> \<open>\<^verbatim>\<open>f.info\<close> is truthy\<close>
  "is_info f = (info f = Some True)"

definition info_last_descending :: "descriptor \<Rightarrow> descriptor \<Rightarrow> bool" where
  \<comment> \<open>\<open>a\<close> may stand before \<open>b\<close>: informational entries last, the others by descending impact\<close>
  "info_last_descending a b =
     ((is_info a \<longrightarrow> is_info b) \<and> (\<not> is_info a \<and> \<not> is_info b \<longrightarrow> impact b \<le> impact a))"

definition scenario_drop_no_reserve :: RiskInput where
  \<comment> \<open>a renewable drop of 1600 MW and an exchange of 5000 MW, without reserve data\<close>
  "scenario_drop_no_reserve =
     \<lparr>hour = 3, dayOfWeek = 0, systemLoad = Some 18000, pvGeneration = Some 0,
      windGeneration = Some 2000, baseloadGeneration = Some 12000, powerExchange = Some 5000,
      availableReserve = None, requiredReserve = None, hasReserveData = Some False,
      pvDelta = Some (- 1600), windDelta = Some 0, baseloadDelta = Some 0,
      demandDelta = Some 0, pvGradient = Some 0, windGradient = Some 0\<rparr>"

definition with_defaults :: "RiskInput \<Rightarrow> RiskInput" where
  \<comment> \<open>the input with the eight properties written out as the scorer reads them\<close>
  "with_defaults data =
     data\<lparr>pvDelta := Some (or_default (pvDelta data) 0),
          windDelta := Some (or_default (windDelta data) 0),
          baseloadDelta := Some (or_default (baseloadDelta data) 0),
          demandDelta := Some (or_default (demandDelta data) 0),
          pvGradient := Some (or_default (pvGradient data) 0),
          windGradient := Some (or_default (windGradient data) 0),
          powerExchange := Some (or_default (powerExchange data) 0),
          systemLoad := Some (or_default (systemLoad data) 20000)\<rparr>"

definition scenario_load_missing :: RiskInput where
  \<comment> \<open>the evening peak without \<^verbatim>\<open>systemLoad\<close>\<close>
  "scenario_load_missing = scenario_evening_peak\<lparr>systemLoad := None\<rparr>"

definition same_window :: "GridData \<Rightarrow> GridData \<Rightarrow> int \<Rightarrow> bool" where
  \<comment> \<open>two data sets with the same entries at hour \<open>h\<close> and the two hours before it\<close>
  "same_window a b h =
     (list_all (\<lambda>i. field_at (pvGeneration_series a) i = field_at (pvGeneration_series b) i \<and>
                     field_at (windGeneration_series a) i = field_at (windGeneration_series b) i \<and>
                     field_at (systemLoad_series a) i = field_at (systemLoad_series b) i)
               [h, h - 1, h - 2] \<and>
      list_all (\<lambda>i. field_at (fullGenerationData a) i = field_at (fullGenerationData b) i)
               [h * 4, (h - 1) * 4])"

definition grid_example :: GridData where
  \<comment> \<open>three hours of a day; the PV entry of hour 0 and most quarter hours are missing\<close>
  "grid_example =
     \<lparr>systemLoad_series = Some [Some 19000, Some 20000, Some 20500],
      pvGeneration_series = Some [None, Some 800, Some 1000],
      windGeneration_series = Some [Some 3000, Some 2500, Some 2400],
      fullGenerationData = Some [Some 10000, None, None, None, Some 11000],
      systemBalance = None\<rparr>"

definition grid_example_longer :: GridData where
  \<comment> \<open>the same three hours, with a fourth PV hour and an exchange series\<close>
  "grid_example_longer =
     grid_example\<lparr>pvGeneration_series := Some [None, Some 800, Some 1000, Some 1500],
                  systemBalance := Some [Some 100, Some 200, Some 300]\<rparr>"

section \<open>Weights and the weighted sum\<close>

lemmas subscore_defs =
  calculateReserveMarginScore_def calculateRenewableDropScore_def calculateBaseloadSurgeScore_def
  calculateDemandSpikeScore_def calculateCriticalHoursScore_def calculateSystemImbalanceScore_def
  renewableDropOf_def baseloadSurgeOf_def demandSpikeOf_def systemImbalanceOf_def
  or_default_def

lemma entries_complete:
  "Object_entries (activeWeights True) =
     [(reserveMargin, 35), (renewableDropRate, 25), (baseloadSurge, 15),
      (demandSpike, 10), (criticalHours, 10), (systemImbalance, 5)]"
  by (simp add: activeWeights_def Object_entries_def all_keys_def map_filter_simps weights_def)

lemma activeWeights_partial:
  "activeWeights False k =
     (if k = reserveMargin then None else Some (weights k + (weights k / 65) * 35))"
  by (cases k)
     (simp_all add: activeWeights_def Object_keys_def Object_values_def Object_entries_def
      all_keys_def map_filter_simps weights_def)

lemma entries_partial:
  "Object_entries (activeWeights False) =
     [(renewableDropRate, 25 + (25 / 65) * 35), (baseloadSurge, 15 + (15 / 65) * 35),
      (demandSpike, 10 + (10 / 65) * 35), (criticalHours, 10 + (10 / 65) * 35),
      (systemImbalance, 5 + (5 / 65) * 35)]"
  by (simp add: Object_entries_def all_keys_def map_filter_simps activeWeights_partial weights_def)

lemma weightedSum_complete:
  "weightedSum sc (activeWeights True) =
     contribution sc reserveMargin 35 + contribution sc renewableDropRate 25 +
     contribution sc baseloadSurge 15 + contribution sc demandSpike 10 +
     contribution sc criticalHours 10 + contribution sc systemImbalance 5"
  by (simp add: weightedSum_def entries_complete contribution_def split: option.splits)

lemma weightedSum_partial:
  "weightedSum sc (activeWeights False) =
     contribution sc renewableDropRate (25 + (25 / 65) * 35) +
     contribution sc baseloadSurge (15 + (15 / 65) * 35) +
     contribution sc demandSpike (10 + (10 / 65) * 35) +
     contribution sc criticalHours (10 + (10 / 65) * 35) +
     contribution sc systemImbalance (5 + (5 / 65) * 35)"
  by (simp add: weightedSum_def entries_partial contribution_def split: option.splits)

section \<open>Ranges of the sub-scores\<close>

lemma reserveMargin_range:
  "calculateReserveMarginScore data = Some s \<Longrightarrow> 0 \<le> s \<and> s \<le> 100"
  by (auto simp: calculateReserveMarginScore_def Let_def split: option.splits if_splits)

lemma renewableDrop_range:
  "0 \<le> calculateRenewableDropScore data \<and> calculateRenewableDropScore data \<le> 100"
  by (simp add: calculateRenewableDropScore_def renewableDropOf_def Let_def)

lemma baseloadSurge_range:
  "0 \<le> calculateBaseloadSurgeScore data \<and> calculateBaseloadSurgeScore data \<le> 100"
  by (simp add: calculateBaseloadSurgeScore_def baseloadSurgeOf_def Let_def)

lemma demandSpike_range:
  "0 \<le> calculateDemandSpikeScore data \<and> calculateDemandSpikeScore data \<le> 100"
  by (simp add: calculateDemandSpikeScore_def demandSpikeOf_def Let_def)

lemma demandSpikeOf_zero: "demandSpikeOf 0 systemLoad' = 0"
  by (simp add: demandSpikeOf_def)

lemma criticalHours_range:
  "0 \<le> calculateCriticalHoursScore data \<and> calculateCriticalHoursScore data \<le> 100"
  by (simp add: calculateCriticalHoursScore_def Let_def)

lemma systemImbalance_range:
  "0 \<le> calculateSystemImbalanceScore data \<and> calculateSystemImbalanceScore data \<le> 100"
  by (simp add: calculateSystemImbalanceScore_def systemImbalanceOf_def Let_def)

lemma componentScores_range:
  "componentScores data k = Some s \<Longrightarrow> 0 \<le> s \<and> s \<le> 100"
  using reserveMargin_range[of data s] renewableDrop_range[of data] baseloadSurge_range[of data]
    demandSpike_range[of data] criticalHours_range[of data] systemImbalance_range[of data]
  by (cases k) (auto simp: componentScores_def split: if_splits)

lemma contribution_range:
  assumes "0 \<le> w"
  shows "0 \<le> contribution (componentScores data) k w \<and> contribution (componentScores data) k w \<le> w"
proof (cases "componentScores data k")
  case None
  then show ?thesis using assms by (simp add: contribution_def)
next
  case (Some s)
  then have s: "0 \<le> s" "s \<le> 100" using componentScores_range by blast+
  have "s * w \<le> 100 * w" using s assms by (intro mult_right_mono) simp_all
  then show ?thesis using Some s assms by (simp add: contribution_def)
qed

lemma weightedSum_range:
  "0 \<le> weightedSum (componentScores data) (activeWeights has) \<and>
   weightedSum (componentScores data) (activeWeights has) \<le> 100"
proof (cases has)
  case True
  show ?thesis
    using contribution_range[of 35 data reserveMargin] contribution_range[of 25 data renewableDropRate]
      contribution_range[of 15 data baseloadSurge] contribution_range[of 10 data demandSpike]
      contribution_range[of 10 data criticalHours] contribution_range[of 5 data systemImbalance]
    by (simp add: True weightedSum_complete)
next
  case False
  show ?thesis
    using contribution_range[of "25 + (25 / 65) * 35" data renewableDropRate]
      contribution_range[of "15 + (15 / 65) * 35" data baseloadSurge]
      contribution_range[of "10 + (10 / 65) * 35" data demandSpike]
      contribution_range[of "10 + (10 / 65) * 35" data criticalHours]
      contribution_range[of "5 + (5 / 65) * 35" data systemImbalance]
    by (simp add: False weightedSum_partial)
qed

section \<open>The synergy bonus\<close>

lemma countFactors_fst_aux:
  "fst (foldl (\<lambda>(criticalFactors, highFactors) score.
              (case score of
                 None \<Rightarrow> (criticalFactors, highFactors)
               | Some s \<Rightarrow> if s \<ge> 80 then (criticalFactors + 1, highFactors)
                           else if s \<ge> 50 then (criticalFactors, highFactors + 1)
                           else (criticalFactors, highFactors)))
           (c, h) vs) = c + length (filter isCritical vs)"
  by (induction vs arbitrary: c h) (auto simp: isCritical_def split: option.splits)

lemma countFactors_fst: "fst (countFactors vs) = length (filter isCritical vs)"
  using countFactors_fst_aux[of 0 0 vs] by (simp add: countFactors_def)

lemma synergy_range: "0 \<le> calculateSynergyBonus sc \<and> calculateSynergyBonus sc \<le> 15"
  by (simp add: calculateSynergyBonus_def Let_def split: prod.splits)

lemma synergy_three_critical:
  "3 \<le> length (filter isCritical (scores_values sc)) \<Longrightarrow> calculateSynergyBonus sc = 15"
  using countFactors_fst[of "scores_values sc"]
  by (cases "countFactors (scores_values sc)") (simp add: calculateSynergyBonus_def)

section \<open>The fields of the result\<close>

lemma totalScore_eq:
  "totalScore (calculateRiskScore data) =
     min 100 (Math_round (weightedSum (componentScores data) (activeWeights (hasReserve data)) +
                          calculateSynergyBonus (componentScores data)))"
  by (simp add: calculateRiskScore_def Let_def)

lemma components_eq: "components (calculateRiskScore data) = componentScores data"
  by (simp add: calculateRiskScore_def Let_def)

lemma riskLevel_eq:
  "riskLevel (calculateRiskScore data) = getRiskLevel (totalScore (calculateRiskScore data))"
  by (simp add: calculateRiskScore_def Let_def)

lemma hasReserveData_out_eq: "hasReserveData_out (calculateRiskScore data) = hasReserve data"
  by (simp add: calculateRiskScore_def Let_def)

lemma dataQuality_eq:
  "dataQuality (calculateRiskScore data) = (if hasReserve data then ''complete'' else ''partial'')"
  by (simp add: calculateRiskScore_def Let_def)

lemma recommendations_eq:
  "recommendations (calculateRiskScore data) =
     getRecommendations (componentScores data) data (hasReserve data)"
  by (simp add: calculateRiskScore_def Let_def)

lemma factors_eq:
  "factors (calculateRiskScore data) =
     getDetailedFactors (componentScores data) data (hasReserve data)"
  by (simp add: calculateRiskScore_def Let_def)

section \<open>Two inputs at the evening peak\<close>

lemma evening_peak_hasReserve: "hasReserve scenario_evening_peak"
  by (simp add: hasReserve_def scenario_evening_peak_def)

lemma evening_peak_scores:
  "componentScores scenario_evening_peak reserveMargin = Some 100"
  "componentScores scenario_evening_peak renewableDropRate = Some 100"
  "componentScores scenario_evening_peak baseloadSurge = Some 100"
  "componentScores scenario_evening_peak demandSpike = Some 60"
  "componentScores scenario_evening_peak criticalHours = Some 100"
  "componentScores scenario_evening_peak systemImbalance = Some 0"
  by (simp_all add: componentScores_def hasReserve_def subscore_defs scenario_evening_peak_def)

lemma evening_peak_synergy: "calculateSynergyBonus (componentScores scenario_evening_peak) = 15"
  by (simp add: calculateSynergyBonus_def countFactors_def scores_values_def all_keys_def
      evening_peak_scores)

lemma evening_peak_total: "totalScore (calculateRiskScore scenario_evening_peak) = 100"
  by (simp add: totalScore_eq evening_peak_hasReserve weightedSum_complete contribution_def
      evening_peak_scores evening_peak_synergy Math_round_def)

lemma boundary_hasReserve: "hasReserve boundary_input"
  by (simp add: hasReserve_def boundary_input_def scenario_evening_peak_def)

lemma boundary_scores:
  "componentScores boundary_input reserveMargin = Some 100"
  "componentScores boundary_input renewableDropRate = Some 100"
  "componentScores boundary_input baseloadSurge = Some 100"
  "componentScores boundary_input demandSpike = Some 100"
  "componentScores boundary_input criticalHours = Some 100"
  "componentScores boundary_input systemImbalance = Some 0"
  by (simp_all add: componentScores_def hasReserve_def subscore_defs boundary_input_def
      scenario_evening_peak_def)

section \<open>The total score, the weights and the risk level\<close>

text \<open>
  C1. For every input, \<^verbatim>\<open>totalScore\<close> is an integer between 0 and 100. The synergy bonus
  does not push it above 100: when the weighted sum is 95 and at least three sub-scores are
  at least 80, the bonus is 15 and the result is 100, not 110.
\<close>

theorem totalScore_integer_in_range:
  "totalScore (calculateRiskScore data) \<in> \<int> \<and>
   0 \<le> totalScore (calculateRiskScore data) \<and>
   totalScore (calculateRiskScore data) \<le> 100 \<and>
   (weightedSum (componentScores data) (activeWeights (hasReserve data)) = 95 \<and>
    3 \<le> length (filter isCritical (scores_values (componentScores data)))
    \<longrightarrow> totalScore (calculateRiskScore data) = 100)"
proof -
  let ?raw = "weightedSum (componentScores data) (activeWeights (hasReserve data))"
  let ?syn = "calculateSynergyBonus (componentScores data)"
  have raw: "0 \<le> ?raw" using weightedSum_range by blast
  have syn: "0 \<le> ?syn" using synergy_range by blast
  have int: "min 100 (Math_round (?raw + ?syn)) \<in> \<int>"
    by (simp add: min_def Math_round_def)
  have "0 \<le> \<lfloor>?raw + ?syn + 1 / 2\<rfloor>" using raw syn by simp
  then have lo: "0 \<le> min 100 (Math_round (?raw + ?syn))"
    by (simp add: Math_round_def)
  have hi: "min 100 (Math_round (?raw + ?syn)) \<le> 100" by simp
  have clamp: "min 100 (Math_round (?raw + ?syn)) = 100"
    if "?raw = 95" "3 \<le> length (filter isCritical (scores_values (componentScores data)))"
    using that synergy_three_critical[of "componentScores data"] by (simp add: Math_round_def)
  show ?thesis
    unfolding totalScore_eq using int lo hi clamp by blast
qed

theorem totalScore_integer_in_range_witness:
  "weightedSum (componentScores boundary_input) (activeWeights (hasReserve boundary_input)) = 95 \<and>
   3 \<le> length (filter isCritical (scores_values (componentScores boundary_input))) \<and>
   totalScore (calculateRiskScore boundary_input) = 100"
proof -
  have raw: "weightedSum (componentScores boundary_input) (activeWeights (hasReserve boundary_input)) = 95"
    by (simp add: boundary_hasReserve weightedSum_complete contribution_def boundary_scores)
  have crit: "3 \<le> length (filter isCritical (scores_values (componentScores boundary_input)))"
    by (simp add: scores_values_def all_keys_def boundary_scores isCritical_def)
  show ?thesis
    using totalScore_integer_in_range[of boundary_input] raw crit by blast
qed

lemma drop_no_reserve_hasReserve: "\<not> hasReserve scenario_drop_no_reserve"
  by (simp add: hasReserve_def scenario_drop_no_reserve_def)

lemma drop_no_reserve_subscores:
  "calculateRenewableDropScore scenario_drop_no_reserve = 80"
  "calculateBaseloadSurgeScore scenario_drop_no_reserve = 0"
  "calculateDemandSpikeScore scenario_drop_no_reserve = 0"
  "calculateCriticalHoursScore scenario_drop_no_reserve = 0"
  "calculateSystemImbalanceScore scenario_drop_no_reserve = 100"
  by (simp_all add: subscore_defs scenario_drop_no_reserve_def)

lemma drop_no_reserve_scores:
  "componentScores scenario_drop_no_reserve reserveMargin = None"
  "componentScores scenario_drop_no_reserve renewableDropRate = Some 80"
  "componentScores scenario_drop_no_reserve baseloadSurge = Some 0"
  "componentScores scenario_drop_no_reserve demandSpike = Some 0"
  "componentScores scenario_drop_no_reserve criticalHours = Some 0"
  "componentScores scenario_drop_no_reserve systemImbalance = Some 100"
  by (simp_all add: componentScores_def drop_no_reserve_hasReserve drop_no_reserve_subscores)

text \<open>
  C2. When \<^verbatim>\<open>hasReserveData\<close> is \<^verbatim>\<open>false\<close> or one of the two reserve properties is
  missing, \<^verbatim>\<open>components.reserveMargin\<close> is \<^verbatim>\<open>null\<close> and the five other components are
  the sub-scores of the input; the weight 35 is redistributed, each remaining factor
  getting \<open>w + (w / 65) * 35\<close>, and these five weights add up to 100; the total is the
  sum of the input's five sub-scores under these weights, plus the synergy bonus, rounded
  and capped at 100. \<^verbatim>\<open>dataQuality\<close> is \<^verbatim>\<open>'partial'\<close> in exactly this case and
  \<^verbatim>\<open>'complete'\<close> otherwise.
\<close>

theorem missing_reserve_redistribution:
  "dataQuality (calculateRiskScore data) =
     (if hasReserveData data = Some False \<or> availableReserve data = None \<or> requiredReserve data = None
      then ''partial'' else ''complete'') \<and>
   (hasReserveData data = Some False \<or> availableReserve data = None \<or> requiredReserve data = None \<longrightarrow>
     hasReserveData_out (calculateRiskScore data) = False \<and>
     components (calculateRiskScore data) reserveMargin = None \<and>
     components (calculateRiskScore data) renewableDropRate = Some (calculateRenewableDropScore data) \<and>
     components (calculateRiskScore data) baseloadSurge = Some (calculateBaseloadSurgeScore data) \<and>
     components (calculateRiskScore data) demandSpike = Some (calculateDemandSpikeScore data) \<and>
     components (calculateRiskScore data) criticalHours = Some (calculateCriticalHoursScore data) \<and>
     components (calculateRiskScore data) systemImbalance = Some (calculateSystemImbalanceScore data) \<and>
     Object_entries (activeWeights (hasReserveData_out (calculateRiskScore data))) =
       map (\<lambda>k. (k, weights k + (weights k / 65) * 35)) remaining_keys \<and>
     Object_entries (activeWeights (hasReserveData_out (calculateRiskScore data))) =
       [(renewableDropRate, 25 + (25 / 65) * 35), (baseloadSurge, 15 + (15 / 65) * 35),
        (demandSpike, 10 + (10 / 65) * 35), (criticalHours, 10 + (10 / 65) * 35),
        (systemImbalance, 5 + (5 / 65) * 35)] \<and>
     foldl (\<lambda>a b. a + b) 0 (Object_values (activeWeights (hasReserveData_out (calculateRiskScore data)))) = 100 \<and>
     totalScore (calculateRiskScore data) =
       min 100 (Math_round
         (calculateRenewableDropScore data * (25 + (25 / 65) * 35) / 100 +
          calculateBaseloadSurgeScore data * (15 + (15 / 65) * 35) / 100 +
          calculateDemandSpikeScore data * (10 + (10 / 65) * 35) / 100 +
          calculateCriticalHoursScore data * (10 + (10 / 65) * 35) / 100 +
          calculateSystemImbalanceScore data * (5 + (5 / 65) * 35) / 100 +
          calculateSynergyBonus
            (\<lambda>k. case k of
                   reserveMargin \<Rightarrow> None
                 | renewableDropRate \<Rightarrow> Some (calculateRenewableDropScore data)
                 | baseloadSurge \<Rightarrow> Some (calculateBaseloadSurgeScore data)
                 | demandSpike \<Rightarrow> Some (calculateDemandSpikeScore data)
                 | criticalHours \<Rightarrow> Some (calculateCriticalHoursScore data)
                 | systemImbalance \<Rightarrow> Some (calculateSystemImbalanceScore data)))))"
proof -
  let ?absent = "hasReserveData data = Some False \<or> availableReserve data = None \<or> requiredReserve data = None"
  let ?sc = "\<lambda>k. case k of
                   reserveMargin \<Rightarrow> None
                 | renewableDropRate \<Rightarrow> Some (calculateRenewableDropScore data)
                 | baseloadSurge \<Rightarrow> Some (calculateBaseloadSurgeScore data)
                 | demandSpike \<Rightarrow> Some (calculateDemandSpikeScore data)
                 | criticalHours \<Rightarrow> Some (calculateCriticalHoursScore data)
                 | systemImbalance \<Rightarrow> Some (calculateSystemImbalanceScore data)"
  have has: "hasReserve data \<longleftrightarrow> \<not> ?absent" by (auto simp: hasReserve_def)
  have q: "dataQuality (calculateRiskScore data) = (if ?absent then ''partial'' else ''complete'')"
    by (simp add: dataQuality_eq has)
  have rest: "hasReserveData_out (calculateRiskScore data) = False \<and>
     components (calculateRiskScore data) reserveMargin = None \<and>
     components (calculateRiskScore data) renewableDropRate = Some (calculateRenewableDropScore data) \<and>
     components (calculateRiskScore data) baseloadSurge = Some (calculateBaseloadSurgeScore data) \<and>
     components (calculateRiskScore data) demandSpike = Some (calculateDemandSpikeScore data) \<and>
     components (calculateRiskScore data) criticalHours = Some (calculateCriticalHoursScore data) \<and>
     components (calculateRiskScore data) systemImbalance = Some (calculateSystemImbalanceScore data) \<and>
     Object_entries (activeWeights (hasReserveData_out (calculateRiskScore data))) =
       map (\<lambda>k. (k, weights k + (weights k / 65) * 35)) remaining_keys \<and>
     Object_entries (activeWeights (hasReserveData_out (calculateRiskScore data))) =
       [(renewableDropRate, 25 + (25 / 65) * 35), (baseloadSurge, 15 + (15 / 65) * 35),
        (demandSpike, 10 + (10 / 65) * 35), (criticalHours, 10 + (10 / 65) * 35),
        (systemImbalance, 5 + (5 / 65) * 35)] \<and>
     foldl (\<lambda>a b. a + b) 0 (Object_values (activeWeights (hasReserveData_out (calculateRiskScore data)))) = 100 \<and>
     totalScore (calculateRiskScore data) =
       min 100 (Math_round
         (calculateRenewableDropScore data * (25 + (25 / 65) * 35) / 100 +
          calculateBaseloadSurgeScore data * (15 + (15 / 65) * 35) / 100 +
          calculateDemandSpikeScore data * (10 + (10 / 65) * 35) / 100 +
          calculateCriticalHoursScore data * (10 + (10 / 65) * 35) / 100 +
          calculateSystemImbalanceScore data * (5 + (5 / 65) * 35) / 100 +
          calculateSynergyBonus ?sc))" if ?absent
  proof -
    have nh: "\<not> hasReserve data" using that has by blast
    have sc: "componentScores data = ?sc"
    proof
      fix k show "componentScores data k = ?sc k"
        using nh by (cases k) (simp_all add: componentScores_def)
    qed
    have c: "componentScores data reserveMargin = None"
      "componentScores data renewableDropRate = Some (calculateRenewableDropScore data)"
      "componentScores data baseloadSurge = Some (calculateBaseloadSurgeScore data)"
      "componentScores data demandSpike = Some (calculateDemandSpikeScore data)"
      "componentScores data criticalHours = Some (calculateCriticalHoursScore data)"
      "componentScores data systemImbalance = Some (calculateSystemImbalanceScore data)"
      using nh by (simp_all add: componentScores_def)
    have e: "Object_entries (activeWeights False) =
       map (\<lambda>k. (k, weights k + (weights k / 65) * 35)) remaining_keys"
      by (simp add: entries_partial remaining_keys_def weights_def)
    have s: "foldl (\<lambda>a b. a + b) 0 (Object_values (activeWeights False)) = 100"
      by (simp add: Object_values_def entries_partial)
    have w: "weightedSum (componentScores data) (activeWeights False) =
          calculateRenewableDropScore data * (25 + (25 / 65) * 35) / 100 +
          calculateBaseloadSurgeScore data * (15 + (15 / 65) * 35) / 100 +
          calculateDemandSpikeScore data * (10 + (10 / 65) * 35) / 100 +
          calculateCriticalHoursScore data * (10 + (10 / 65) * 35) / 100 +
          calculateSystemImbalanceScore data * (5 + (5 / 65) * 35) / 100"
      unfolding weightedSum_partial contribution_def c by simp
    have t: "totalScore (calculateRiskScore data) =
       min 100 (Math_round
         (calculateRenewableDropScore data * (25 + (25 / 65) * 35) / 100 +
          calculateBaseloadSurgeScore data * (15 + (15 / 65) * 35) / 100 +
          calculateDemandSpikeScore data * (10 + (10 / 65) * 35) / 100 +
          calculateCriticalHoursScore data * (10 + (10 / 65) * 35) / 100 +
          calculateSystemImbalanceScore data * (5 + (5 / 65) * 35) / 100 +
          calculateSynergyBonus ?sc))"
      unfolding totalScore_eq using nh w sc by simp
    have o: "hasReserveData_out (calculateRiskScore data) = False"
      using nh by (simp add: hasReserveData_out_eq)
    show ?thesis
      unfolding o components_eq using c e s t entries_partial by simp
  qed
  show ?thesis using q rest by blast
qed

theorem missing_reserve_redistribution_witness:
  "hasReserveData scenario_drop_no_reserve = Some False \<and>
   dataQuality (calculateRiskScore scenario_drop_no_reserve) = ''partial'' \<and>
   components (calculateRiskScore scenario_drop_no_reserve) reserveMargin = None \<and>
   components (calculateRiskScore scenario_drop_no_reserve) renewableDropRate = Some 80 \<and>
   components (calculateRiskScore scenario_drop_no_reserve) systemImbalance = Some 100 \<and>
   foldl (\<lambda>a b. a + b) 0
     (Object_values (activeWeights (hasReserveData_out (calculateRiskScore scenario_drop_no_reserve)))) = 100 \<and>
   totalScore (calculateRiskScore scenario_drop_no_reserve) = 48"
proof -
  have a: "hasReserveData scenario_drop_no_reserve = Some False"
    by (simp add: scenario_drop_no_reserve_def)
  have sy: "calculateSynergyBonus
            (\<lambda>k. case k of
                   reserveMargin \<Rightarrow> None
                 | renewableDropRate \<Rightarrow> Some 80
                 | baseloadSurge \<Rightarrow> Some 0
                 | demandSpike \<Rightarrow> Some 0
                 | criticalHours \<Rightarrow> Some 0
                 | systemImbalance \<Rightarrow> Some 100) = 10"
    by (simp add: calculateSynergyBonus_def countFactors_def scores_values_def all_keys_def)
  have r: "min 100 (Math_round (80 * (25 + (25 / 65) * 35) / 100 + 100 * (5 + (5 / 65) * 35) / 100 + 10)) = (48 :: real)"
    by (simp add: Math_round_def)
  show ?thesis
    using missing_reserve_redistribution[of scenario_drop_no_reserve] a sy r
    by (auto simp: drop_no_reserve_subscores)
qed

text \<open>
  C5. The evening peak of a weekday (hour 18, day 3, load 22000, reserve 200 against a
  requirement of 1200, PV delta -1800, wind delta -300, baseload delta 1600, demand delta
  900, exchange 500): reserve data is present, the sub-scores of \<^verbatim>\<open>reserveMargin\<close>,
  \<^verbatim>\<open>renewableDropRate\<close>, \<^verbatim>\<open>baseloadSurge\<close> and \<^verbatim>\<open>criticalHours\<close> are 100, the total is 100
  and the level is \<^verbatim>\<open>'critical'\<close>.
\<close>

theorem scenario_evening_peak_result:
  "hasReserveData_out (calculateRiskScore scenario_evening_peak) = True \<and>
   components (calculateRiskScore scenario_evening_peak) reserveMargin = Some 100 \<and>
   components (calculateRiskScore scenario_evening_peak) renewableDropRate = Some 100 \<and>
   components (calculateRiskScore scenario_evening_peak) baseloadSurge = Some 100 \<and>
   components (calculateRiskScore scenario_evening_peak) criticalHours = Some 100 \<and>
   totalScore (calculateRiskScore scenario_evening_peak) = 100 \<and>
   riskLevel (calculateRiskScore scenario_evening_peak) = ''critical''"
  by (simp add: hasReserveData_out_eq evening_peak_hasReserve components_eq evening_peak_scores
      riskLevel_eq evening_peak_total getRiskLevel_def thresholds_low_def thresholds_medium_def
      thresholds_high_def)

text \<open>
  C8. \<^verbatim>\<open>riskLevel\<close> is \<^verbatim>\<open>getRiskLevel\<close> of \<^verbatim>\<open>totalScore\<close>, and \<^verbatim>\<open>getRiskLevel\<close> follows the
  breakpoints: at most 25 is \<^verbatim>\<open>'low'\<close>, at most 50 \<^verbatim>\<open>'medium'\<close>, at most 75 \<^verbatim>\<open>'high'\<close>,
  above 75 \<^verbatim>\<open>'critical'\<close>; there is no other value.
\<close>

theorem riskLevel_breakpoints:
  "riskLevel (calculateRiskScore data) = getRiskLevel (totalScore (calculateRiskScore data)) \<and>
   (getRiskLevel s = ''low'' \<longleftrightarrow> s \<le> 25) \<and>
   (getRiskLevel s = ''medium'' \<longleftrightarrow> 25 < s \<and> s \<le> 50) \<and>
   (getRiskLevel s = ''high'' \<longleftrightarrow> 50 < s \<and> s \<le> 75) \<and>
   (getRiskLevel s = ''critical'' \<longleftrightarrow> 75 < s) \<and>
   getRiskLevel s \<in> {''low'', ''medium'', ''high'', ''critical''}"
  by (simp add: riskLevel_eq getRiskLevel_def thresholds_low_def thresholds_medium_def
      thresholds_high_def)

section \<open>The list of recommendations\<close>

lemma getRecommendations_nonempty: "getRecommendations sc data has \<noteq> []"
  by (simp add: getRecommendations_def Let_def)

lemma getRecommendations_no_advisory:
  "thresholdAdvisories sc data has = [] \<Longrightarrow>
   getRecommendations sc data has =
     (if has then [Sytuacja_stabilna] else [Brak_danych_o_rezerwach_mocy, Analiza_ograniczona])"
  by (simp add: getRecommendations_def Let_def includes_Brak_danych_def)

lemma quiet_with_reserve_hasReserve: "hasReserve scenario_quiet_with_reserve"
  by (simp add: hasReserve_def scenario_quiet_with_reserve_def scenario_quiet_weekend_def)

lemma quiet_with_reserve_scores:
  "componentScores scenario_quiet_with_reserve reserveMargin = Some 0"
  "componentScores scenario_quiet_with_reserve renewableDropRate = Some 0"
  "componentScores scenario_quiet_with_reserve baseloadSurge = Some 0"
  "componentScores scenario_quiet_with_reserve demandSpike = Some 0"
  "componentScores scenario_quiet_with_reserve criticalHours = Some 0"
  "componentScores scenario_quiet_with_reserve systemImbalance = Some 0"
  by (simp_all add: componentScores_def hasReserve_def subscore_defs scenario_quiet_with_reserve_def
      scenario_quiet_weekend_def)

lemma quiet_with_reserve_no_advisory:
  "thresholdAdvisories (componentScores scenario_quiet_with_reserve) scenario_quiet_with_reserve True = []"
  by (simp add: thresholdAdvisories_def Let_def quiet_with_reserve_scores num_def js_sub_def js_lt_def
      weights_def)
     (simp add: scenario_quiet_with_reserve_def scenario_quiet_weekend_def)

text \<open>
  C10. The list of recommendations is never empty. When no threshold raises an advisory,
  the list is the stable-situation advisory alone if reserve data is present, and the
  no-reserve-data line followed by the limited-analysis advisory if it is absent.
\<close>

theorem recommendations_nonempty:
  "recommendations (calculateRiskScore data) \<noteq> [] \<and>
   (thresholdAdvisories (components (calculateRiskScore data)) data
      (hasReserveData_out (calculateRiskScore data)) = [] \<longrightarrow>
    recommendations (calculateRiskScore data) =
      (if hasReserveData_out (calculateRiskScore data) then [Sytuacja_stabilna]
       else [Brak_danych_o_rezerwach_mocy, Analiza_ograniczona]))"
  using getRecommendations_nonempty[of "componentScores data" data "hasReserve data"]
    getRecommendations_no_advisory[of "componentScores data" data "hasReserve data"]
  by (simp add: recommendations_eq components_eq hasReserveData_out_eq)

theorem recommendations_nonempty_witness:
  "thresholdAdvisories (components (calculateRiskScore scenario_quiet_with_reserve))
      scenario_quiet_with_reserve
      (hasReserveData_out (calculateRiskScore scenario_quiet_with_reserve)) = [] \<and>
   recommendations (calculateRiskScore scenario_quiet_with_reserve) = [Sytuacja_stabilna]"
proof -
  have "thresholdAdvisories (components (calculateRiskScore scenario_quiet_with_reserve))
      scenario_quiet_with_reserve
      (hasReserveData_out (calculateRiskScore scenario_quiet_with_reserve)) = []"
    by (simp add: components_eq hasReserveData_out_eq quiet_with_reserve_hasReserve
        quiet_with_reserve_no_advisory)
  then show ?thesis
    using recommendations_nonempty[of scenario_quiet_with_reserve]
    by (simp add: hasReserveData_out_eq quiet_with_reserve_hasReserve)
qed

lemma quiet_weekend_no_reserve: "\<not> hasReserve scenario_quiet_weekend"
  by (simp add: hasReserve_def scenario_quiet_weekend_def)

text \<open>
  C6. Stated for a Sunday at hour 3 with all deltas and gradients 0 and no reserve data:
  every sub-score is 0, the total is 0, the level is \<^verbatim>\<open>'low'\<close>, and the recommendations are
  the stable-situation advisory and the no-reserve-data line. The code does not give that
  list: with the no-reserve-data line alone in the list, \<^verbatim>\<open>getRecommendations\<close> appends the
  limited-analysis advisory, so the list is not empty at the closing check and the
  stable-situation advisory is not added. The sub-score of \<^verbatim>\<open>reserveMargin\<close> is \<^verbatim>\<open>null\<close>.
\<close>

theorem quiet_weekend_counterexample:
  "components (calculateRiskScore scenario_quiet_weekend) reserveMargin \<noteq> Some 0 \<and>
   recommendations (calculateRiskScore scenario_quiet_weekend) =
     [Brak_danych_o_rezerwach_mocy, Analiza_ograniczona] \<and>
   Sytuacja_stabilna \<notin> set (recommendations (calculateRiskScore scenario_quiet_weekend))"
proof -
  have sc: "componentScores scenario_quiet_weekend reserveMargin = None"
    "componentScores scenario_quiet_weekend renewableDropRate = Some 0"
    "componentScores scenario_quiet_weekend baseloadSurge = Some 0"
    "componentScores scenario_quiet_weekend criticalHours = Some 0"
    by (simp_all add: componentScores_def hasReserve_def subscore_defs scenario_quiet_weekend_def)
  have "thresholdAdvisories (componentScores scenario_quiet_weekend) scenario_quiet_weekend False = []"
    by (simp add: thresholdAdvisories_def Let_def sc num_def)
  then have "getRecommendations (componentScores scenario_quiet_weekend) scenario_quiet_weekend False =
      [Brak_danych_o_rezerwach_mocy, Analiza_ograniczona]"
    by (simp add: getRecommendations_def Let_def includes_Brak_danych_def)
  then show ?thesis
    by (simp add: recommendations_eq components_eq quiet_weekend_no_reserve sc)
qed

text \<open>
  C6, as amended. For a Sunday at hour 3 with all deltas and gradients 0 and no reserve
  data, \<^verbatim>\<open>reserveMargin\<close> is \<^verbatim>\<open>null\<close>, the sub-scores of \<^verbatim>\<open>renewableDropRate\<close>,
  \<^verbatim>\<open>baseloadSurge\<close>, \<^verbatim>\<open>demandSpike\<close> and \<^verbatim>\<open>criticalHours\<close> are 0, the level is \<^verbatim>\<open>'low'\<close>,
  and the recommendations are the no-reserve-data line followed by the limited-analysis
  advisory. When the exchange is at most 1000 MW in magnitude (or missing),
  \<^verbatim>\<open>systemImbalance\<close> is 0 as well and the total is 0.
\<close>

theorem quiet_weekend_result:
  assumes day: "dayOfWeek data = 0" and hr: "hour data = 3"
    and deltas: "pvDelta data = Some 0" "windDelta data = Some 0"
      "baseloadDelta data = Some 0" "demandDelta data = Some 0"
    and gradients: "pvGradient data = Some 0" "windGradient data = Some 0"
    and absent: "hasReserveData data = Some False \<or> availableReserve data = None \<or>
      requiredReserve data = None"
  shows "components (calculateRiskScore data) reserveMargin = None \<and>
    components (calculateRiskScore data) renewableDropRate = Some 0 \<and>
    components (calculateRiskScore data) baseloadSurge = Some 0 \<and>
    components (calculateRiskScore data) demandSpike = Some 0 \<and>
    components (calculateRiskScore data) criticalHours = Some 0 \<and>
    riskLevel (calculateRiskScore data) = ''low'' \<and>
    recommendations (calculateRiskScore data) =
      [Brak_danych_o_rezerwach_mocy, Analiza_ograniczona] \<and>
    (\<bar>or_default (powerExchange data) 0\<bar> \<le> 1000 \<longrightarrow>
       components (calculateRiskScore data) systemImbalance = Some 0 \<and>
       totalScore (calculateRiskScore data) = 0)"
proof -
  have nh: "\<not> hasReserve data" using absent by (auto simp: hasReserve_def)
  have ds: "calculateDemandSpikeScore data = 0"
    using deltas by (simp add: calculateDemandSpikeScore_def or_default_def demandSpikeOf_zero)
  have sc: "componentScores data reserveMargin = None"
    "componentScores data renewableDropRate = Some 0"
    "componentScores data baseloadSurge = Some 0"
    "componentScores data demandSpike = Some 0"
    "componentScores data criticalHours = Some 0"
    using nh day hr deltas gradients ds
    by (simp_all add: componentScores_def calculateRenewableDropScore_def renewableDropOf_def
        calculateBaseloadSurgeScore_def baseloadSurgeOf_def calculateCriticalHoursScore_def
        or_default_def)
  have imb: "componentScores data systemImbalance = Some (calculateSystemImbalanceScore data)"
    by (simp add: componentScores_def)
  have "thresholdAdvisories (componentScores data) data False = []"
    by (simp add: thresholdAdvisories_def Let_def sc num_def)
  then have recs: "getRecommendations (componentScores data) data False =
      [Brak_danych_o_rezerwach_mocy, Analiza_ograniczona]"
    by (simp add: getRecommendations_def Let_def includes_Brak_danych_def)
  have cases: "calculateSystemImbalanceScore data \<in> {0, 30, 60, 100}"
    by (simp add: calculateSystemImbalanceScore_def systemImbalanceOf_def Let_def)
  have syn: "calculateSynergyBonus (componentScores data) = 0"
    by (simp add: calculateSynergyBonus_def countFactors_def scores_values_def all_keys_def sc imb)
  have raw: "weightedSum (componentScores data) (activeWeights False) =
      calculateSystemImbalanceScore data * (5 + (5 / 65) * 35) / 100"
    by (simp add: weightedSum_partial contribution_def sc imb)
  have total: "totalScore (calculateRiskScore data) =
      min 100 (Math_round (calculateSystemImbalanceScore data * (5 + (5 / 65) * 35) / 100))"
    by (simp add: totalScore_eq nh raw syn)
  have low: "getRiskLevel (totalScore (calculateRiskScore data)) = ''low''"
    using cases unfolding total
    by (auto simp: Math_round_def getRiskLevel_def thresholds_low_def)
  have zero: "calculateSystemImbalanceScore data = 0"
    if "\<bar>or_default (powerExchange data) 0\<bar> \<le> 1000"
    using that by (simp add: calculateSystemImbalanceScore_def systemImbalanceOf_def Let_def)
  have t0: "totalScore (calculateRiskScore data) = 0"
    if "\<bar>or_default (powerExchange data) 0\<bar> \<le> 1000"
    using zero[OF that] by (simp add: total Math_round_def)
  show ?thesis
    using sc recs low zero t0
    by (simp add: components_eq recommendations_eq riskLevel_eq nh imb)
qed

theorem quiet_weekend_result_witness:
  "dayOfWeek scenario_quiet_weekend = 0 \<and> hour scenario_quiet_weekend = 3 \<and>
   components (calculateRiskScore scenario_quiet_weekend) systemImbalance = Some 0 \<and>
   totalScore (calculateRiskScore scenario_quiet_weekend) = 0 \<and>
   riskLevel (calculateRiskScore scenario_quiet_weekend) = ''low'' \<and>
   recommendations (calculateRiskScore scenario_quiet_weekend) =
     [Brak_danych_o_rezerwach_mocy, Analiza_ograniczona]"
proof -
  have ex: "\<bar>or_default (powerExchange scenario_quiet_weekend) 0\<bar> \<le> 1000"
    by (simp add: scenario_quiet_weekend_def or_default_def)
  show ?thesis
    using quiet_weekend_result[of scenario_quiet_weekend] ex
    by (simp add: scenario_quiet_weekend_def)
qed

section \<open>The sort of the descriptors\<close>

lemma set_insert_by: "set (insert_by cmp x ys) = insert x (set ys)"
  by (induction ys) auto

lemma set_Array_sort: "set (Array_sort cmp xs) = set xs"
  unfolding Array_sort_def by (induction xs) (simp_all add: set_insert_by)

lemma filter_length_insert_by:
  "length (filter P (insert_by cmp x ys)) = length (filter P (x # ys))"
  by (induction ys) auto

lemma filter_length_Array_sort:
  "length (filter P (Array_sort cmp xs)) = length (filter P xs)"
  unfolding Array_sort_def by (induction xs) (simp_all add: filter_length_insert_by)

lemma factor_order_le:
  "factor_order a b \<le> 0 \<longleftrightarrow> \<not> is_info a \<and> (is_info b \<or> impact b \<le> impact a)"
  by (simp add: factor_order_def is_info_def)

lemma info_last_descending_trans:
  "info_last_descending a b \<Longrightarrow> info_last_descending b c \<Longrightarrow> info_last_descending a c"
  by (auto simp: info_last_descending_def)

lemma sorted_insert_by:
  "sorted_wrt info_last_descending ys \<Longrightarrow>
   sorted_wrt info_last_descending (insert_by factor_order x ys)"
proof (induction ys)
  case Nil
  then show ?case by simp
next
  case (Cons y ys)
  show ?case
  proof (cases "factor_order x y \<le> 0")
    case True
    then have xy: "info_last_descending x y"
      by (auto simp: factor_order_le info_last_descending_def)
    have "info_last_descending x z" if "z \<in> set ys" for z
      using Cons.prems that xy info_last_descending_trans by auto
    then show ?thesis using True xy Cons.prems by simp
  next
    case False
    then have yx: "info_last_descending y x"
      by (auto simp: factor_order_le info_last_descending_def)
    then show ?thesis using False Cons by (auto simp: set_insert_by)
  qed
qed

lemma sorted_Array_sort: "sorted_wrt info_last_descending (Array_sort factor_order xs)"
  unfolding Array_sort_def by (induction xs) (simp_all add: sorted_insert_by)

lemma info_last_split:
  "sorted_wrt info_last_descending xs \<Longrightarrow>
   xs = filter (\<lambda>f. \<not> is_info f) xs @ filter is_info xs"
proof (induction xs)
  case Nil
  then show ?case by simp
next
  case (Cons x xs)
  show ?case
  proof (cases "is_info x")
    case True
    then have "\<forall>z\<in>set xs. is_info z"
      using Cons.prems by (auto simp: info_last_descending_def)
    then have "filter (\<lambda>f. \<not> is_info f) xs = []" "filter is_info xs = xs"
      by (simp_all add: filter_empty_conv filter_id_conv)
    then show ?thesis using True by simp
  next
    case False
    then show ?thesis using Cons by simp
  qed
qed

lemma descending_non_info:
  assumes "sorted_wrt info_last_descending xs"
  shows "sorted_wrt (\<lambda>a b. impact b \<le> impact a) (filter (\<lambda>f. \<not> is_info f) xs)"
proof -
  have "sorted_wrt info_last_descending (filter (\<lambda>f. \<not> is_info f) xs)"
    using assms by (rule sorted_wrt_filter)
  then show ?thesis
    by (rule sorted_wrt_mono_rel[rotated]) (auto simp: info_last_descending_def)
qed

section \<open>The descriptors\<close>

lemma num_componentScores_nonneg: "0 \<le> num (componentScores data k)"
  using componentScores_range[of data k] by (cases "componentScores data k") (simp_all add: num_def)

lemma reserve_descriptor_condition:
  "(hasReserve data \<and> componentScores data reserveMargin \<noteq> None \<and>
    num (componentScores data reserveMargin) > 0) \<longleftrightarrow>
   num (componentScores data reserveMargin) \<noteq> 0"
  using num_componentScores_nonneg[of data reserveMargin]
  by (auto simp: componentScores_def num_def split: option.splits if_splits)

lemma unsorted_factors:
  "getDetailedFactors sc data has =
   Array_sort factor_order
    ((if has \<and> sc reserveMargin \<noteq> None \<and> num (sc reserveMargin) > 0 then
        [\<lparr>factor = (if js_lt (js_sub (availableReserve data) (requiredReserve data)) 0 then Deficyt_rezerwy
                    else if js_lt (js_sub (availableReserve data) (requiredReserve data)) 300 then Krytycznie_niski_margines
                    else if js_lt (js_sub (availableReserve data) (requiredReserve data)) 500 then Bardzo_niski_margines
                    else Niski_margines_rezerwy),
          value_text = MW (js_sub (availableReserve data) (requiredReserve data)),
          impact = Math_round (num (sc reserveMargin) * weights reserveMargin / 100),
          icon = ''activity'',
          critical = Some (js_lt (js_sub (availableReserve data) (requiredReserve data)) 300),
          info = None\<rparr>]
      else if \<not> has then
        [\<lparr>factor = Brak_danych_o_rezerwach, value_text = NA, impact = 0,
          icon = ''help-circle'', critical = None, info = Some True\<rparr>]
      else []) @
     (if num (sc renewableDropRate) > 0 then
        [\<lparr>factor = (if \<bar>or_default (pvDelta data) 0 + or_default (windDelta data) 0\<bar> > 1500
                    then Gwaltowny_spadek_OZE else Spadek_generacji_OZE),
          value_text = MW_per_h (or_default (pvDelta data) 0 + or_default (windDelta data) 0),
          impact = Math_round (num (sc renewableDropRate) *
                     (if has then weights renewableDropRate else 38) / 100),
          icon = ''trending-down'',
          critical = Some (\<bar>or_default (pvDelta data) 0 + or_default (windDelta data) 0\<bar> > 1500),
          info = None\<rparr>]
      else []) @
     (if num (sc baseloadSurge) > 0 then
        [\<lparr>factor = (if or_default (baseloadDelta data) 0 > 1000
                    then Gwaltowny_wzrost_JW_RB else Wzrost_generacji_JW_RB),
          value_text = Plus_MW (or_default (baseloadDelta data) 0),
          impact = Math_round (num (sc baseloadSurge) *
                     (if has then weights baseloadSurge else 23) / 100),
          icon = ''zap'',
          critical = Some (or_default (baseloadDelta data) 0 > 1000 \<and> hour data \<ge> 16 \<and> hour data \<le> 20),
          info = None\<rparr>]
      else []) @
     (if num (sc demandSpike) > 0 then
        [\<lparr>factor = Wzrost_zapotrzebowania,
          value_text = Plus_MW (or_default (demandDelta data) 0),
          impact = Math_round (num (sc demandSpike) * (if has then weights demandSpike else 15) / 100),
          icon = ''trending-up'',
          critical = None,
          info = None\<rparr>]
      else []) @
     (if num (sc criticalHours) > 0 then
        [\<lparr>factor = (if hour data \<ge> 17 \<and> hour data \<le> 20 then Szczyt_wieczorny else Godzina_szczytowa),
          value_text = Clock (hour data),
          impact = Math_round (num (sc criticalHours) * (if has then weights criticalHours else 15) / 100),
          icon = ''clock'',
          critical = None,
          info = None\<rparr>]
      else []))"
  by (simp add: getDetailedFactors_def Let_def)


lemma positive_iff_nonzero:
  "num (componentScores data k) > 0 \<longleftrightarrow> num (componentScores data k) \<noteq> 0"
  using num_componentScores_nonneg[of data k] by auto

lemma descriptor_present:
  assumes "k \<in> set described_keys" and "num (componentScores data k) \<noteq> 0"
  shows "\<exists>f\<in>set (getDetailedFactors (componentScores data) data (hasReserve data)).
           \<not> is_info f \<and> icon f = descriptor_icon k \<and>
           impact f = Math_round (num (componentScores data k) *
                                  descriptor_weight (hasReserve data) k / 100)"
proof -
  have pos: "num (componentScores data k) > 0"
    using assms(2) positive_iff_nonzero by blast
  consider "k = reserveMargin" | "k = renewableDropRate" | "k = baseloadSurge"
    | "k = demandSpike" | "k = criticalHours"
    using assms(1) by (auto simp: described_keys_def)
  then show ?thesis
  proof cases
    case 1
    then have "hasReserve data \<and> componentScores data reserveMargin \<noteq> None \<and>
        num (componentScores data reserveMargin) > 0"
      using assms(2) pos reserve_descriptor_condition by blast
    then show ?thesis
      unfolding unsorted_factors set_Array_sort 1
      by (simp add: is_info_def descriptor_icon_def descriptor_weight_def)
  next
    case 2
    then show ?thesis
      using pos unfolding unsorted_factors set_Array_sort 2
      by (simp add: is_info_def descriptor_icon_def descriptor_weight_def)
  next
    case 3
    then show ?thesis
      using pos unfolding unsorted_factors set_Array_sort 3
      by (simp add: is_info_def descriptor_icon_def descriptor_weight_def)
  next
    case 4
    then show ?thesis
      using pos unfolding unsorted_factors set_Array_sort 4
      by (simp add: is_info_def descriptor_icon_def descriptor_weight_def)
  next
    case 5
    then show ?thesis
      using pos unfolding unsorted_factors set_Array_sort 5
      by (simp add: is_info_def descriptor_icon_def descriptor_weight_def)
  qed
qed

lemma descriptor_count:
  "length (filter (\<lambda>f. \<not> is_info f) (getDetailedFactors (componentScores data) data (hasReserve data))) =
   length (filter (\<lambda>k. num (componentScores data k) \<noteq> 0) described_keys)"
  unfolding unsorted_factors filter_length_Array_sort
  using reserve_descriptor_condition[of data]
  by (simp add: is_info_def described_keys_def positive_iff_nonzero)

lemma info_impact_zero:
  "f \<in> set (getDetailedFactors sc data has) \<Longrightarrow> is_info f \<Longrightarrow> impact f = 0"
  unfolding unsorted_factors set_Array_sort
  by (auto simp: is_info_def split: if_splits)

lemma drop_no_reserve_factors:
  "map impact (factors (calculateRiskScore scenario_drop_no_reserve)) = [30, 0]"
  "map icon (factors (calculateRiskScore scenario_drop_no_reserve)) = [''trending-down'', ''help-circle'']"
  by (simp_all add: factors_eq drop_no_reserve_hasReserve unsorted_factors drop_no_reserve_scores
      num_def Array_sort_def factor_order_def Math_round_def)

text \<open>
  C7. Stated: every factor with a non-zero sub-score has a descriptor whose impact is
  \<open>round(subscore * effectiveWeight / 100)\<close> with the weight the call used, redistributed
  or not; informational entries have impact 0 and come last; the others are in descending
  order of impact. The code differs in two places. Without reserve data it multiplies by
  the constants 38, 23, 15 and 15, not by the redistributed weights (38.46, 23.08, 15.38,
  15.38): a sub-score of 80 for \<^verbatim>\<open>renewableDropRate\<close> gives impact 30, where the
  redistributed weight gives 31. And \<^verbatim>\<open>systemImbalance\<close> has no descriptor at all.
\<close>

theorem factors_impact_counterexample:
  "num (components (calculateRiskScore scenario_drop_no_reserve) renewableDropRate) = 80 \<and>
   activeWeights (hasReserveData_out (calculateRiskScore scenario_drop_no_reserve)) renewableDropRate =
     Some (25 + (25 / 65) * 35) \<and>
   Math_round (80 * (25 + (25 / 65) * 35) / 100) = 31 \<and>
   num (components (calculateRiskScore scenario_drop_no_reserve) systemImbalance) = 100 \<and>
   map impact (factors (calculateRiskScore scenario_drop_no_reserve)) = [30, 0] \<and>
   map icon (factors (calculateRiskScore scenario_drop_no_reserve)) = [''trending-down'', ''help-circle''] \<and>
   31 \<notin> set (map impact (factors (calculateRiskScore scenario_drop_no_reserve)))"
proof -
  have a: "num (components (calculateRiskScore scenario_drop_no_reserve) renewableDropRate) = 80"
    "num (components (calculateRiskScore scenario_drop_no_reserve) systemImbalance) = 100"
    by (simp_all add: components_eq drop_no_reserve_scores num_def)
  have b: "activeWeights (hasReserveData_out (calculateRiskScore scenario_drop_no_reserve)) renewableDropRate =
     Some (25 + (25 / 65) * 35)"
    by (simp add: hasReserveData_out_eq drop_no_reserve_hasReserve activeWeights_partial weights_def)
  have c: "Math_round (80 * (25 + (25 / 65) * 35) / 100) = 31"
    by (simp add: Math_round_def)
  have d: "31 \<notin> set (map impact (factors (calculateRiskScore scenario_drop_no_reserve)))"
    unfolding drop_no_reserve_factors by simp
  show ?thesis
    using a b c d drop_no_reserve_factors by blast
qed

text \<open>
  C7, as amended. For each of \<^verbatim>\<open>reserveMargin\<close>, \<^verbatim>\<open>renewableDropRate\<close>, \<^verbatim>\<open>baseloadSurge\<close>,
  \<^verbatim>\<open>demandSpike\<close> and \<^verbatim>\<open>criticalHours\<close> with a non-zero sub-score, the list
  \<^verbatim>\<open>factors\<close> has a descriptor whose impact is \<open>round(subscore * w / 100)\<close>, where \<open>w\<close>
  is the factor's weight of the table when reserve data is present, and 38, 23, 15, 15
  when it is absent. These are all the descriptors that are not informational
  (\<^verbatim>\<open>systemImbalance\<close> has none). Informational entries have impact 0 and come after all
  the others, which are in descending order of impact.
\<close>

theorem factors_impact_and_order:
  "(\<forall>k\<in>set described_keys.
      num (components (calculateRiskScore data) k) \<noteq> 0 \<longrightarrow>
      (\<exists>f\<in>set (factors (calculateRiskScore data)).
          \<not> is_info f \<and> icon f = descriptor_icon k \<and>
          impact f = Math_round (num (components (calculateRiskScore data) k) *
                       descriptor_weight (hasReserveData_out (calculateRiskScore data)) k / 100))) \<and>
   length (filter (\<lambda>f. \<not> is_info f) (factors (calculateRiskScore data))) =
     length (filter (\<lambda>k. num (components (calculateRiskScore data) k) \<noteq> 0) described_keys) \<and>
   (\<forall>f\<in>set (factors (calculateRiskScore data)). is_info f \<longrightarrow> impact f = 0) \<and>
   factors (calculateRiskScore data) =
     filter (\<lambda>f. \<not> is_info f) (factors (calculateRiskScore data)) @
     filter is_info (factors (calculateRiskScore data)) \<and>
   sorted_wrt (\<lambda>a b. impact b \<le> impact a)
     (filter (\<lambda>f. \<not> is_info f) (factors (calculateRiskScore data)))"
proof -
  let ?fs = "getDetailedFactors (componentScores data) data (hasReserve data)"
  have srt: "sorted_wrt info_last_descending ?fs"
    unfolding unsorted_factors by (rule sorted_Array_sort)
  have a: "\<forall>k\<in>set described_keys.
      num (componentScores data k) \<noteq> 0 \<longrightarrow>
      (\<exists>f\<in>set ?fs. \<not> is_info f \<and> icon f = descriptor_icon k \<and>
          impact f = Math_round (num (componentScores data k) *
                       descriptor_weight (hasReserve data) k / 100))"
    using descriptor_present by blast
  have b: "length (filter (\<lambda>f. \<not> is_info f) ?fs) =
     length (filter (\<lambda>k. num (componentScores data k) \<noteq> 0) described_keys)"
    by (rule descriptor_count)
  have c: "\<forall>f\<in>set ?fs. is_info f \<longrightarrow> impact f = 0"
    using info_impact_zero by blast
  have d: "?fs = filter (\<lambda>f. \<not> is_info f) ?fs @ filter is_info ?fs"
    using srt by (rule info_last_split)
  have e: "sorted_wrt (\<lambda>a b. impact b \<le> impact a) (filter (\<lambda>f. \<not> is_info f) ?fs)"
    using srt by (rule descending_non_info)
  show ?thesis
    unfolding factors_eq components_eq hasReserveData_out_eq
    using a b c d e by blast
qed

theorem factors_impact_and_order_witness:
  "renewableDropRate \<in> set described_keys \<and>
   num (components (calculateRiskScore scenario_drop_no_reserve) renewableDropRate) = 80 \<and>
   (\<exists>f\<in>set (factors (calculateRiskScore scenario_drop_no_reserve)).
      \<not> is_info f \<and> icon f = ''trending-down'' \<and> impact f = 30) \<and>
   length (filter (\<lambda>f. \<not> is_info f) (factors (calculateRiskScore scenario_drop_no_reserve))) = 1"
proof -
  have k: "renewableDropRate \<in> set described_keys" by (simp add: described_keys_def)
  have n: "num (components (calculateRiskScore scenario_drop_no_reserve) renewableDropRate) = 80"
    by (simp add: components_eq drop_no_reserve_scores num_def)
  have w: "Math_round (80 * descriptor_weight
      (hasReserveData_out (calculateRiskScore scenario_drop_no_reserve)) renewableDropRate / 100) = 30"
    by (simp add: hasReserveData_out_eq drop_no_reserve_hasReserve descriptor_weight_def Math_round_def)
  have c: "length (filter (\<lambda>k. num (components (calculateRiskScore scenario_drop_no_reserve) k) \<noteq> 0)
      described_keys) = 1"
    by (simp add: components_eq drop_no_reserve_scores num_def described_keys_def)
  have "\<exists>f\<in>set (factors (calculateRiskScore scenario_drop_no_reserve)).
      \<not> is_info f \<and> icon f = descriptor_icon renewableDropRate \<and> impact f = 30"
    using factors_impact_and_order[of scenario_drop_no_reserve] k n w by force
  then show ?thesis
    using factors_impact_and_order[of scenario_drop_no_reserve] k n c
    by (simp add: descriptor_icon_def)
qed

section \<open>Missing properties\<close>

lemma or_default_idem: "or_default (Some (or_default v d)) d = or_default v d"
  by (simp add: or_default_def split: option.splits)

lemma with_defaults_untouched:
  "hour (with_defaults data) = hour data"
  "dayOfWeek (with_defaults data) = dayOfWeek data"
  "availableReserve (with_defaults data) = availableReserve data"
  "requiredReserve (with_defaults data) = requiredReserve data"
  "hasReserveData (with_defaults data) = hasReserveData data"
  by (simp_all add: with_defaults_def)

lemma with_defaults_written:
  "pvDelta (with_defaults data) = Some (or_default (pvDelta data) 0)"
  "windDelta (with_defaults data) = Some (or_default (windDelta data) 0)"
  "baseloadDelta (with_defaults data) = Some (or_default (baseloadDelta data) 0)"
  "demandDelta (with_defaults data) = Some (or_default (demandDelta data) 0)"
  "pvGradient (with_defaults data) = Some (or_default (pvGradient data) 0)"
  "windGradient (with_defaults data) = Some (or_default (windGradient data) 0)"
  "powerExchange (with_defaults data) = Some (or_default (powerExchange data) 0)"
  "systemLoad (with_defaults data) = Some (or_default (systemLoad data) 20000)"
  by (simp_all add: with_defaults_def)

lemma with_defaults_subscores:
  "calculateReserveMarginScore (with_defaults data) = calculateReserveMarginScore data"
  "calculateRenewableDropScore (with_defaults data) = calculateRenewableDropScore data"
  "calculateBaseloadSurgeScore (with_defaults data) = calculateBaseloadSurgeScore data"
  "calculateDemandSpikeScore (with_defaults data) = calculateDemandSpikeScore data"
  "calculateCriticalHoursScore (with_defaults data) = calculateCriticalHoursScore data"
  "calculateSystemImbalanceScore (with_defaults data) = calculateSystemImbalanceScore data"
  unfolding calculateReserveMarginScore_def calculateRenewableDropScore_def
    calculateBaseloadSurgeScore_def calculateDemandSpikeScore_def calculateCriticalHoursScore_def
    calculateSystemImbalanceScore_def with_defaults_untouched with_defaults_written or_default_idem
  by (rule refl)+

lemma with_defaults_hasReserve: "hasReserve (with_defaults data) = hasReserve data"
  by (simp add: hasReserve_def with_defaults_untouched)

lemma with_defaults_componentScores: "componentScores (with_defaults data) = componentScores data"
proof
  fix k show "componentScores (with_defaults data) k = componentScores data k"
    by (cases k) (simp_all add: componentScores_def with_defaults_subscores with_defaults_hasReserve)
qed

lemma with_defaults_factors:
  "getDetailedFactors sc (with_defaults data) has = getDetailedFactors sc data has"
  unfolding unsorted_factors with_defaults_untouched with_defaults_written or_default_idem
  by (rule refl)

lemma with_defaults_advisories:
  "thresholdAdvisories sc (with_defaults data) has = thresholdAdvisories sc data has"
  unfolding thresholdAdvisories_def with_defaults_untouched by (rule refl)

lemma with_defaults_recommendations:
  "getRecommendations sc (with_defaults data) has = getRecommendations sc data has"
  by (simp add: getRecommendations_def with_defaults_advisories)

lemma with_defaults_score: "calculateRiskScore (with_defaults data) = calculateRiskScore data"
  by (simp add: calculateRiskScore_def with_defaults_hasReserve with_defaults_componentScores
      with_defaults_factors with_defaults_recommendations)


lemma same_defaults_same_score:
  "with_defaults a = with_defaults b \<Longrightarrow> calculateRiskScore a = calculateRiskScore b"
  using with_defaults_score[of a] with_defaults_score[of b] by simp

lemma in_optional:
  "x \<in> set (if c then [d] else ys) \<longleftrightarrow> (c \<and> x = d) \<or> (\<not> c \<and> x \<in> set ys)"
  by simp

lemma descriptor_values:
  assumes "f \<in> set (getDetailedFactors sc data has)"
  shows "(icon f = ''trending-down'' \<longrightarrow>
           value_text f = MW_per_h (or_default (pvDelta data) 0 + or_default (windDelta data) 0)) \<and>
         (icon f = ''zap'' \<longrightarrow> value_text f = Plus_MW (or_default (baseloadDelta data) 0)) \<and>
         (icon f = ''trending-up'' \<longrightarrow> value_text f = Plus_MW (or_default (demandDelta data) 0))"
proof -
  have "f \<in> set (getDetailedFactors sc data has)" by (rule assms)
  then show ?thesis
    unfolding unsorted_factors set_Array_sort set_append Un_iff in_optional
    by (elim disjE conjE) simp_all
qed

lemma load_missing_hasReserve: "hasReserve scenario_load_missing"
  by (simp add: hasReserve_def scenario_load_missing_def scenario_evening_peak_def)

lemma load_missing_demandSpike: "componentScores scenario_load_missing demandSpike = Some 60"
  by (simp add: componentScores_def calculateDemandSpikeScore_def demandSpikeOf_def or_default_def
      scenario_load_missing_def scenario_evening_peak_def)

text \<open>
  C3. Stated: a missing or falsy \<^verbatim>\<open>pvDelta\<close>, \<^verbatim>\<open>windDelta\<close>, \<^verbatim>\<open>baseloadDelta\<close>,
  \<^verbatim>\<open>demandDelta\<close>, \<^verbatim>\<open>pvGradient\<close>, \<^verbatim>\<open>windGradient\<close>, \<^verbatim>\<open>powerExchange\<close> or \<^verbatim>\<open>systemLoad\<close>
  is treated as 0 through \<^verbatim>\<open>value || 0\<close>, and nothing throws. For \<^verbatim>\<open>systemLoad\<close> the
  constant of \<^verbatim>\<open>calculateDemandSpikeScore\<close> is \<^verbatim>\<open>data.systemLoad || 20000\<close>. With the
  load missing and a demand delta of 900, the lines after the reads compute on 900 and
  20000: the rate is 4.5 percent and the sub-score 60. On 900 and 0 the same lines divide
  by 0 and give the sub-score 100.
\<close>

theorem load_fallback_counterexample:
  "systemLoad scenario_load_missing = None \<and>
   demandDelta scenario_load_missing = Some 900 \<and>
   components (calculateRiskScore scenario_load_missing) demandSpike = Some 60 \<and>
   demandSpikeOf 900 20000 = 60 \<and>
   demandSpikeOf 900 0 = 100 \<and>
   components (calculateRiskScore scenario_load_missing) demandSpike \<noteq>
     Some (demandSpikeOf (or_default (demandDelta scenario_load_missing) 0)
                         (or_default (systemLoad scenario_load_missing) 0)) \<and>
   calculateRiskScore scenario_load_missing =
     calculateRiskScore (scenario_load_missing\<lparr>systemLoad := Some 20000\<rparr>)"
proof -
  have a: "systemLoad scenario_load_missing = None" "demandDelta scenario_load_missing = Some 900"
    by (simp_all add: scenario_load_missing_def scenario_evening_peak_def)
  have b: "demandSpikeOf 900 20000 = 60" "demandSpikeOf 900 0 = 100"
    by (simp_all add: demandSpikeOf_def)
  have c: "components (calculateRiskScore scenario_load_missing) demandSpike = Some 60"
    by (simp add: components_eq load_missing_demandSpike)
  have d: "components (calculateRiskScore scenario_load_missing) demandSpike \<noteq>
     Some (demandSpikeOf (or_default (demandDelta scenario_load_missing) 0)
                         (or_default (systemLoad scenario_load_missing) 0))"
    unfolding c a by (simp add: or_default_def b)
  have e: "calculateRiskScore scenario_load_missing =
     calculateRiskScore (scenario_load_missing\<lparr>systemLoad := Some 20000\<rparr>)"
    by (rule same_defaults_same_score) (simp add: with_defaults_def or_default_def a)
  show ?thesis using a b c d e by blast
qed

text \<open>
  C3, as amended. The scorer reads \<^verbatim>\<open>pvDelta\<close>, \<^verbatim>\<open>windDelta\<close>, \<^verbatim>\<open>baseloadDelta\<close>,
  \<^verbatim>\<open>demandDelta\<close>, \<^verbatim>\<open>pvGradient\<close>, \<^verbatim>\<open>windGradient\<close> and \<^verbatim>\<open>powerExchange\<close> through
  \<^verbatim>\<open>value || 0\<close> and \<^verbatim>\<open>systemLoad\<close> through \<^verbatim>\<open>value || 20000\<close>. The read gives the
  fallback for a missing property and for 0, and the number itself otherwise. Each
  sub-score is what the lines after the reads compute on these numbers, and so is the
  value shown in a descriptor. The whole result for a missing property is the result for
  the input that holds 0 in its place; for \<^verbatim>\<open>systemLoad\<close>, missing or 0, it is the result
  for a load of 20000. The function is total: no operation of the source on numbers or
  missing properties throws, and the model has no error result.
\<close>

theorem missing_fields_default:
  "or_default None c = c \<and> or_default (Some 0) c = c \<and> (x \<noteq> 0 \<longrightarrow> or_default (Some x) c = x) \<and>
   components (calculateRiskScore data) renewableDropRate =
     Some (renewableDropOf (or_default (pvDelta data) 0) (or_default (windDelta data) 0)
                           (or_default (pvGradient data) 0) (or_default (windGradient data) 0)) \<and>
   components (calculateRiskScore data) baseloadSurge =
     Some (baseloadSurgeOf (or_default (baseloadDelta data) 0) (hour data)) \<and>
   components (calculateRiskScore data) demandSpike =
     Some (demandSpikeOf (or_default (demandDelta data) 0) (or_default (systemLoad data) 20000)) \<and>
   components (calculateRiskScore data) systemImbalance =
     Some (systemImbalanceOf (or_default (powerExchange data) 0)) \<and>
   (\<forall>f\<in>set (factors (calculateRiskScore data)).
      (icon f = ''trending-down'' \<longrightarrow>
         value_text f = MW_per_h (or_default (pvDelta data) 0 + or_default (windDelta data) 0)) \<and>
      (icon f = ''zap'' \<longrightarrow> value_text f = Plus_MW (or_default (baseloadDelta data) 0)) \<and>
      (icon f = ''trending-up'' \<longrightarrow> value_text f = Plus_MW (or_default (demandDelta data) 0))) \<and>
   calculateRiskScore data = calculateRiskScore (with_defaults data) \<and>
   calculateRiskScore (data\<lparr>pvDelta := None\<rparr>) = calculateRiskScore (data\<lparr>pvDelta := Some 0\<rparr>) \<and>
   calculateRiskScore (data\<lparr>windDelta := None\<rparr>) = calculateRiskScore (data\<lparr>windDelta := Some 0\<rparr>) \<and>
   calculateRiskScore (data\<lparr>baseloadDelta := None\<rparr>) = calculateRiskScore (data\<lparr>baseloadDelta := Some 0\<rparr>) \<and>
   calculateRiskScore (data\<lparr>demandDelta := None\<rparr>) = calculateRiskScore (data\<lparr>demandDelta := Some 0\<rparr>) \<and>
   calculateRiskScore (data\<lparr>pvGradient := None\<rparr>) = calculateRiskScore (data\<lparr>pvGradient := Some 0\<rparr>) \<and>
   calculateRiskScore (data\<lparr>windGradient := None\<rparr>) = calculateRiskScore (data\<lparr>windGradient := Some 0\<rparr>) \<and>
   calculateRiskScore (data\<lparr>powerExchange := None\<rparr>) = calculateRiskScore (data\<lparr>powerExchange := Some 0\<rparr>) \<and>
   calculateRiskScore (data\<lparr>systemLoad := None\<rparr>) = calculateRiskScore (data\<lparr>systemLoad := Some 20000\<rparr>) \<and>
   calculateRiskScore (data\<lparr>systemLoad := Some 0\<rparr>) = calculateRiskScore (data\<lparr>systemLoad := Some 20000\<rparr>)"
proof -
  have r: "or_default None c = c \<and> or_default (Some 0) c = c \<and> (x \<noteq> 0 \<longrightarrow> or_default (Some x) c = x)"
    by (simp add: or_default_def)
  have s: "components (calculateRiskScore data) renewableDropRate =
     Some (renewableDropOf (or_default (pvDelta data) 0) (or_default (windDelta data) 0)
                           (or_default (pvGradient data) 0) (or_default (windGradient data) 0))"
    "components (calculateRiskScore data) baseloadSurge =
     Some (baseloadSurgeOf (or_default (baseloadDelta data) 0) (hour data))"
    "components (calculateRiskScore data) demandSpike =
     Some (demandSpikeOf (or_default (demandDelta data) 0) (or_default (systemLoad data) 20000))"
    "components (calculateRiskScore data) systemImbalance =
     Some (systemImbalanceOf (or_default (powerExchange data) 0))"
    by (simp_all add: components_eq componentScores_def calculateRenewableDropScore_def
        calculateBaseloadSurgeScore_def calculateDemandSpikeScore_def
        calculateSystemImbalanceScore_def Let_def)
  have v: "\<forall>f\<in>set (factors (calculateRiskScore data)).
      (icon f = ''trending-down'' \<longrightarrow>
         value_text f = MW_per_h (or_default (pvDelta data) 0 + or_default (windDelta data) 0)) \<and>
      (icon f = ''zap'' \<longrightarrow> value_text f = Plus_MW (or_default (baseloadDelta data) 0)) \<and>
      (icon f = ''trending-up'' \<longrightarrow> value_text f = Plus_MW (or_default (demandDelta data) 0))"
    unfolding factors_eq using descriptor_values by blast
  have 0: "calculateRiskScore data = calculateRiskScore (with_defaults data)"
    by (simp add: with_defaults_score)
  have 1: "calculateRiskScore (data\<lparr>pvDelta := None\<rparr>) = calculateRiskScore (data\<lparr>pvDelta := Some 0\<rparr>)"
    by (rule same_defaults_same_score) (simp add: with_defaults_def or_default_def)
  have 2: "calculateRiskScore (data\<lparr>windDelta := None\<rparr>) = calculateRiskScore (data\<lparr>windDelta := Some 0\<rparr>)"
    by (rule same_defaults_same_score) (simp add: with_defaults_def or_default_def)
  have 3: "calculateRiskScore (data\<lparr>baseloadDelta := None\<rparr>) = calculateRiskScore (data\<lparr>baseloadDelta := Some 0\<rparr>)"
    by (rule same_defaults_same_score) (simp add: with_defaults_def or_default_def)
  have 4: "calculateRiskScore (data\<lparr>demandDelta := None\<rparr>) = calculateRiskScore (data\<lparr>demandDelta := Some 0\<rparr>)"
    by (rule same_defaults_same_score) (simp add: with_defaults_def or_default_def)
  have 5: "calculateRiskScore (data\<lparr>pvGradient := None\<rparr>) = calculateRiskScore (data\<lparr>pvGradient := Some 0\<rparr>)"
    by (rule same_defaults_same_score) (simp add: with_defaults_def or_default_def)
  have 6: "calculateRiskScore (data\<lparr>windGradient := None\<rparr>) = calculateRiskScore (data\<lparr>windGradient := Some 0\<rparr>)"
    by (rule same_defaults_same_score) (simp add: with_defaults_def or_default_def)
  have 7: "calculateRiskScore (data\<lparr>powerExchange := None\<rparr>) = calculateRiskScore (data\<lparr>powerExchange := Some 0\<rparr>)"
    by (rule same_defaults_same_score) (simp add: with_defaults_def or_default_def)
  have 8: "calculateRiskScore (data\<lparr>systemLoad := None\<rparr>) = calculateRiskScore (data\<lparr>systemLoad := Some 20000\<rparr>)"
    by (rule same_defaults_same_score) (simp add: with_defaults_def or_default_def)
  have 9: "calculateRiskScore (data\<lparr>systemLoad := Some 0\<rparr>) = calculateRiskScore (data\<lparr>systemLoad := Some 20000\<rparr>)"
    by (rule same_defaults_same_score) (simp add: with_defaults_def or_default_def)
  show ?thesis using r s v 0 1 2 3 4 5 6 7 8 9 by blast
qed

theorem missing_fields_default_witness:
  "(900 :: real) \<noteq> 0 \<and>
   or_default (Some 900) 0 = 900 \<and>
   or_default (systemLoad scenario_load_missing) 20000 = 20000 \<and>
   components (calculateRiskScore scenario_load_missing) demandSpike = Some (demandSpikeOf 900 20000) \<and>
   demandSpikeOf 900 20000 = 60 \<and>
   (\<exists>f\<in>set (factors (calculateRiskScore scenario_load_missing)).
      icon f = ''trending-up'' \<and> value_text f = Plus_MW 900)"
proof -
  have a: "systemLoad scenario_load_missing = None" "demandDelta scenario_load_missing = Some 900"
    by (simp_all add: scenario_load_missing_def scenario_evening_peak_def)
  have n: "(900 :: real) \<noteq> 0" by simp
  note th = missing_fields_default[where data = scenario_load_missing and x = 900]
  have o: "or_default (Some 900) 0 = (900 :: real)"
    using th[where c = 0] n by blast
  have l: "or_default (systemLoad scenario_load_missing) 20000 = 20000"
    using th[where c = 20000] a(1) by simp
  have comp: "components (calculateRiskScore scenario_load_missing) demandSpike =
     Some (demandSpikeOf (or_default (demandDelta scenario_load_missing) 0)
                         (or_default (systemLoad scenario_load_missing) 20000))"
    using th[where c = 0] by blast
  have c: "components (calculateRiskScore scenario_load_missing) demandSpike = Some (demandSpikeOf 900 20000)"
    using comp o l a(2) by simp
  have v: "demandSpikeOf 900 20000 = 60" by (simp add: demandSpikeOf_def)
  have "demandSpike \<in> set described_keys" by (simp add: described_keys_def)
  moreover have "num (componentScores scenario_load_missing demandSpike) \<noteq> 0"
    by (simp add: load_missing_demandSpike num_def)
  ultimately obtain f where f: "f \<in> set (factors (calculateRiskScore scenario_load_missing))"
    "icon f = ''trending-up''"
    using descriptor_present[of demandSpike scenario_load_missing]
    by (auto simp: factors_eq descriptor_icon_def)
  have vals: "\<forall>f\<in>set (factors (calculateRiskScore scenario_load_missing)).
      icon f = ''trending-up'' \<longrightarrow>
        value_text f = Plus_MW (or_default (demandDelta scenario_load_missing) 0)"
    using th[where c = 0] by blast
  have "value_text f = Plus_MW 900"
    using vals f o a(2) by simp
  then show ?thesis using n o l c v f by blast
qed

section \<open>The cells of the grid\<close>

lemma baseloadGeneration0_eq:
  "(case fullGenerationData data of
      None \<Rightarrow> 10000
    | Some xs \<Rightarrow> if length xs > 0 then or_default (arr_at xs (h * 4)) 10000 else 10000) =
   or_default (field_at (fullGenerationData data) (h * 4)) 10000"
  by (auto simp: field_at_def arr_at_def or_default_def split: option.splits)

lemma build_generation:
  "pvGeneration (buildScoreData data rd off h dow) =
     Some (or_default (field_at (pvGeneration_series data) h) 0 *
           (if off > 0 then exp (- real_of_int off * 0.1) else 1))"
  "windGeneration (buildScoreData data rd off h dow) =
     Some (or_default (field_at (windGeneration_series data) h) 0 *
           (if off > 0 then exp (- real_of_int off * 0.1) else 1))"
  "systemLoad (buildScoreData data rd off h dow) =
     Some (or_default (field_at (systemLoad_series data) h) 20000 *
           (if off > 0 then 1 + real_of_int off * 0.005 else 1))"
  by (simp_all add: buildScoreData_def Let_def split_beta)

lemma build_pvDelta:
  "pvDelta (buildScoreData data rd off h dow) =
     Some ((if h > 0
            then or_default (field_at (pvGeneration_series data) h) 0 -
                 or_default (field_at (pvGeneration_series data) (h - 1))
                   (or_default (field_at (pvGeneration_series data) h) 0)
            else 0) *
           (if off > 0 then 1 + real_of_int off * 0.2 else 1))"
  by (simp add: buildScoreData_def Let_def split_beta)

lemma build_windDelta:
  "windDelta (buildScoreData data rd off h dow) =
     Some ((if h > 0
            then or_default (field_at (windGeneration_series data) h) 0 -
                 or_default (field_at (windGeneration_series data) (h - 1))
                   (or_default (field_at (windGeneration_series data) h) 0)
            else 0) *
           (if off > 0 then 1 + real_of_int off * 0.2 else 1))"
  by (simp add: buildScoreData_def Let_def split_beta)

lemma build_demandDelta:
  "demandDelta (buildScoreData data rd off h dow) =
     Some (if h > 0
           then or_default (field_at (systemLoad_series data) h) 20000 -
                or_default (field_at (systemLoad_series data) (h - 1))
                  (or_default (field_at (systemLoad_series data) h) 20000)
           else 0)"
  by (simp add: buildScoreData_def Let_def split_beta)

lemma build_baseloadDelta:
  "baseloadDelta (buildScoreData data rd off h dow) =
     Some (if h > 0
           then or_default (field_at (fullGenerationData data) (h * 4)) 10000 -
                or_default (field_at (fullGenerationData data) ((h - 1) * 4))
                  (or_default (field_at (fullGenerationData data) (h * 4)) 10000)
           else 0)"
  unfolding buildScoreData_def baseloadGeneration0_eq
  by (simp add: Let_def split_beta field_at_def or_default_def split: option.splits)

lemma build_pvGradient:
  "pvGradient (buildScoreData data rd off h dow) =
     Some (if h > 1
           then (or_default (field_at (pvGeneration_series data) h) 0 -
                 or_default (field_at (pvGeneration_series data) (h - 1))
                   (or_default (field_at (pvGeneration_series data) h) 0)) -
                (or_default (field_at (pvGeneration_series data) (h - 1))
                   (or_default (field_at (pvGeneration_series data) h) 0) -
                 or_default (field_at (pvGeneration_series data) (h - 2))
                   (or_default (field_at (pvGeneration_series data) h) 0))
           else 0)"
  by (simp add: buildScoreData_def Let_def split_beta)

lemma build_windGradient:
  "windGradient (buildScoreData data rd off h dow) =
     Some (if h > 1
           then (or_default (field_at (windGeneration_series data) h) 0 -
                 or_default (field_at (windGeneration_series data) (h - 1))
                   (or_default (field_at (windGeneration_series data) h) 0)) -
                (or_default (field_at (windGeneration_series data) (h - 1))
                   (or_default (field_at (windGeneration_series data) h) 0) -
                 or_default (field_at (windGeneration_series data) (h - 2))
                   (or_default (field_at (windGeneration_series data) h) 0))
           else 0)"
  by (simp add: buildScoreData_def Let_def split_beta)

lemma exp_decay_three_days:
  "74081 / 100000 < exp (- (3 / 10) :: real) \<and> exp (- (3 / 10) :: real) < 74083 / 100000"
proof -
  obtain t :: real where t: "\<bar>t\<bar> \<le> \<bar>- (3 / 10)\<bar>"
    and e: "exp (- (3 / 10)) = (\<Sum>m<6. (- (3 / 10)) ^ m / fact m) + (exp t / fact 6) * (- (3 / 10)) ^ 6"
    using Maclaurin_exp_le[of "- (3 / 10)" 6] by blast
  have s: "(\<Sum>m<6. (- (3 / 10) :: real) ^ m / fact m) = 2963269 / 4000000"
    by (simp add: lessThan_nat_numeral sum.lessThan_Suc fact_numeral power_numeral_reduce)
  have "t \<le> 1" using t by simp
  then have "exp t \<le> exp 1" by simp
  then have up: "exp t \<le> 3" using exp_le by linarith
  have lo: "0 < exp t" by simp
  have r: "(exp t / fact 6) * (- (3 / 10)) ^ 6 = exp t * (729 / 720000000)"
    by (simp add: fact_numeral power_numeral_reduce)
  have "(74081 / 100000 :: real) < 2963269 / 4000000 + exp t * (729 / 720000000)"
    using lo by linarith
  moreover have "2963269 / 4000000 + exp t * (729 / 720000000) < (74083 / 100000 :: real)"
    using up by linarith
  ultimately show ?thesis
    unfolding e s r by blast
qed


lemmas build_fields =
  build_generation build_pvDelta build_windDelta build_demandDelta build_baseloadDelta
  build_pvGradient build_windGradient

lemma grid_example_at:
  "field_at (pvGeneration_series grid_example) 0 = None"
  "field_at (pvGeneration_series grid_example) 1 = Some 800"
  "field_at (pvGeneration_series grid_example) 2 = Some 1000"
  "field_at (windGeneration_series grid_example) 0 = Some 3000"
  "field_at (windGeneration_series grid_example) 1 = Some 2500"
  "field_at (windGeneration_series grid_example) 2 = Some 2400"
  "field_at (systemLoad_series grid_example) 0 = Some 19000"
  "field_at (systemLoad_series grid_example) 1 = Some 20000"
  "field_at (systemLoad_series grid_example) 2 = Some 20500"
  "field_at (fullGenerationData grid_example) 0 = Some 10000"
  "field_at (fullGenerationData grid_example) 4 = Some 11000"
  "field_at (fullGenerationData grid_example) 8 = None"
  by (simp_all add: grid_example_def field_at_def arr_at_def)

lemma decay_of_1000:
  "\<bar>1000 * exp (- (3 / 10) :: real) - 7408 / 10\<bar> < 5 / 100"
  using exp_decay_three_days by (simp add: abs_less_iff)

text \<open>
  C4. Stated: for a cell with \<open>dayOffset > 0\<close> the builder scales PV and wind generation
  by \<open>exp(-dayOffset * 0.1)\<close>, the load by \<open>1 + dayOffset * 0.005\<close>, and the four deltas
  \<^verbatim>\<open>pvDelta\<close>, \<^verbatim>\<open>windDelta\<close>, \<^verbatim>\<open>baseloadDelta\<close>, \<^verbatim>\<open>demandDelta\<close> by
  \<open>1 + dayOffset * 0.2\<close>. The builder multiplies \<^verbatim>\<open>pvDelta\<close> and \<^verbatim>\<open>windDelta\<close> by the
  volatility and leaves the two other deltas as they are: at \<open>dayOffset = 3\<close> a baseload
  delta of -1000 stays -1000 and a demand delta of 500 stays 500 (not 800), while the PV
  delta goes from 200 to 320.
\<close>

theorem forecast_delta_counterexample:
  "baseloadDelta (buildScoreData grid_example None 0 2 3) = Some (- 1000) \<and>
   baseloadDelta (buildScoreData grid_example None 3 2 3) = Some (- 1000) \<and>
   demandDelta (buildScoreData grid_example None 0 2 3) = Some 500 \<and>
   demandDelta (buildScoreData grid_example None 3 2 3) = Some 500 \<and>
   (500 :: real) * (1 + 3 * 0.2) = 800 \<and>
   pvDelta (buildScoreData grid_example None 0 2 3) = Some 200 \<and>
   pvDelta (buildScoreData grid_example None 3 2 3) = Some 320"
  by (simp add: build_fields grid_example_at or_default_def)

text \<open>
  C4, as amended. For a cell with \<open>dayOffset > 0\<close> the builder scales \<^verbatim>\<open>pvGeneration\<close> and
  \<^verbatim>\<open>windGeneration\<close> by \<open>exp(-dayOffset * 0.1)\<close>, \<^verbatim>\<open>systemLoad\<close> by
  \<open>1 + dayOffset * 0.005\<close>, and \<^verbatim>\<open>pvDelta\<close> and \<^verbatim>\<open>windDelta\<close> by \<open>1 + dayOffset * 0.2\<close>;
  \<^verbatim>\<open>baseloadDelta\<close> and \<^verbatim>\<open>demandDelta\<close> are those of the cell of the same hour with
  \<open>dayOffset = 0\<close>. A cell with \<open>dayOffset = 0\<close> has the values read from the series. With
  a PV generation of 1000 at \<open>dayOffset = 0\<close>, the cell at \<open>dayOffset = 3\<close> has
  \<open>1000 * exp(-0.3)\<close>, within 0.05 of 740.8.
\<close>

theorem forecast_scaling:
  "(0 < dayOffset \<longrightarrow>
     pvGeneration (buildScoreData data rd dayOffset h dow) =
       map_option (\<lambda>v. v * exp (- real_of_int dayOffset * 0.1))
         (pvGeneration (buildScoreData data rd 0 h dow)) \<and>
     windGeneration (buildScoreData data rd dayOffset h dow) =
       map_option (\<lambda>v. v * exp (- real_of_int dayOffset * 0.1))
         (windGeneration (buildScoreData data rd 0 h dow)) \<and>
     systemLoad (buildScoreData data rd dayOffset h dow) =
       map_option (\<lambda>v. v * (1 + real_of_int dayOffset * 0.005))
         (systemLoad (buildScoreData data rd 0 h dow)) \<and>
     pvDelta (buildScoreData data rd dayOffset h dow) =
       map_option (\<lambda>v. v * (1 + real_of_int dayOffset * 0.2))
         (pvDelta (buildScoreData data rd 0 h dow)) \<and>
     windDelta (buildScoreData data rd dayOffset h dow) =
       map_option (\<lambda>v. v * (1 + real_of_int dayOffset * 0.2))
         (windDelta (buildScoreData data rd 0 h dow)) \<and>
     baseloadDelta (buildScoreData data rd dayOffset h dow) =
       baseloadDelta (buildScoreData data rd 0 h dow) \<and>
     demandDelta (buildScoreData data rd dayOffset h dow) =
       demandDelta (buildScoreData data rd 0 h dow)) \<and>
   pvGeneration (buildScoreData data rd 0 h dow) =
     Some (or_default (field_at (pvGeneration_series data) h) 0) \<and>
   windGeneration (buildScoreData data rd 0 h dow) =
     Some (or_default (field_at (windGeneration_series data) h) 0) \<and>
   systemLoad (buildScoreData data rd 0 h dow) =
     Some (or_default (field_at (systemLoad_series data) h) 20000) \<and>
   (pvGeneration (buildScoreData data rd 0 h dow) = Some 1000 \<longrightarrow>
     (\<exists>v. pvGeneration (buildScoreData data rd 3 h dow) = Some v \<and> \<bar>v - 7408 / 10\<bar> < 5 / 100))"
  using decay_of_1000 by (simp add: build_fields)

theorem forecast_scaling_witness:
  "(0 :: int) < 3 \<and>
   pvGeneration (buildScoreData grid_example None 0 2 3) = Some 1000 \<and>
   pvGeneration (buildScoreData grid_example None 3 2 3) = Some (1000 * exp (- (3 / 10))) \<and>
   (\<exists>v. pvGeneration (buildScoreData grid_example None 3 2 3) = Some v \<and> \<bar>v - 7408 / 10\<bar> < 5 / 100) \<and>
   systemLoad (buildScoreData grid_example None 3 2 3) = Some 20807.5 \<and>
   pvDelta (buildScoreData grid_example None 3 2 3) = Some 320 \<and>
   windDelta (buildScoreData grid_example None 3 2 3) = Some (- 160) \<and>
   baseloadDelta (buildScoreData grid_example None 3 2 3) = Some (- 1000) \<and>
   demandDelta (buildScoreData grid_example None 3 2 3) = Some 500"
proof -
  have base: "pvGeneration (buildScoreData grid_example None 0 2 3) = Some 1000"
    "windGeneration (buildScoreData grid_example None 0 2 3) = Some 2400"
    "systemLoad (buildScoreData grid_example None 0 2 3) = Some 20500"
    "pvDelta (buildScoreData grid_example None 0 2 3) = Some 200"
    "windDelta (buildScoreData grid_example None 0 2 3) = Some (- 100)"
    "baseloadDelta (buildScoreData grid_example None 0 2 3) = Some (- 1000)"
    "demandDelta (buildScoreData grid_example None 0 2 3) = Some 500"
    by (simp_all add: build_fields grid_example_at or_default_def)
  show ?thesis
    using forecast_scaling[of 3 grid_example None 2 3] base by auto
qed

lemma grid_example_longer_window: "same_window grid_example grid_example_longer 2"
  by (simp add: same_window_def grid_example_longer_def grid_example_def field_at_def arr_at_def)

text \<open>
  C9. The deltas and gradients of a cell come from the entries of the same series at the
  hour of the cell and the two hours before it. At hour 0 the four deltas are 0, and the
  two gradients are 0 at hours 0 and 1. When the entry of the hour before is missing, the
  delta is 0: the missing value is replaced by the current one, not by 0. When the entry
  two hours before is missing, it is replaced by the current value as well, which makes
  the gradient twice the unscaled delta. Two data sets with the same entries at the three
  hours give the same deltas and gradients.
\<close>

theorem deltas_from_preceding_hours:
  "(h = 0 \<longrightarrow>
     pvDelta (buildScoreData data rd dayOffset h dow) = Some 0 \<and>
     windDelta (buildScoreData data rd dayOffset h dow) = Some 0 \<and>
     baseloadDelta (buildScoreData data rd dayOffset h dow) = Some 0 \<and>
     demandDelta (buildScoreData data rd dayOffset h dow) = Some 0) \<and>
   (h \<le> 1 \<longrightarrow>
     pvGradient (buildScoreData data rd dayOffset h dow) = Some 0 \<and>
     windGradient (buildScoreData data rd dayOffset h dow) = Some 0) \<and>
   (field_at (pvGeneration_series data) (h - 1) = None \<longrightarrow>
     pvDelta (buildScoreData data rd dayOffset h dow) = Some 0) \<and>
   (field_at (windGeneration_series data) (h - 1) = None \<longrightarrow>
     windDelta (buildScoreData data rd dayOffset h dow) = Some 0) \<and>
   (field_at (fullGenerationData data) ((h - 1) * 4) = None \<longrightarrow>
     baseloadDelta (buildScoreData data rd dayOffset h dow) = Some 0) \<and>
   (field_at (systemLoad_series data) (h - 1) = None \<longrightarrow>
     demandDelta (buildScoreData data rd dayOffset h dow) = Some 0) \<and>
   (1 < h \<and> field_at (pvGeneration_series data) (h - 2) = None \<longrightarrow>
     pvGradient (buildScoreData data rd dayOffset h dow) =
       map_option (\<lambda>d. 2 * d) (pvDelta (buildScoreData data rd 0 h dow))) \<and>
   (1 < h \<and> field_at (windGeneration_series data) (h - 2) = None \<longrightarrow>
     windGradient (buildScoreData data rd dayOffset h dow) =
       map_option (\<lambda>d. 2 * d) (windDelta (buildScoreData data rd 0 h dow))) \<and>
   (same_window data data' h \<longrightarrow>
     pvDelta (buildScoreData data rd dayOffset h dow) =
       pvDelta (buildScoreData data' rd' dayOffset h dow') \<and>
     windDelta (buildScoreData data rd dayOffset h dow) =
       windDelta (buildScoreData data' rd' dayOffset h dow') \<and>
     baseloadDelta (buildScoreData data rd dayOffset h dow) =
       baseloadDelta (buildScoreData data' rd' dayOffset h dow') \<and>
     demandDelta (buildScoreData data rd dayOffset h dow) =
       demandDelta (buildScoreData data' rd' dayOffset h dow') \<and>
     pvGradient (buildScoreData data rd dayOffset h dow) =
       pvGradient (buildScoreData data' rd' dayOffset h dow') \<and>
     windGradient (buildScoreData data rd dayOffset h dow) =
       windGradient (buildScoreData data' rd' dayOffset h dow'))"
proof -
  have zero: "h = 0 \<longrightarrow>
     pvDelta (buildScoreData data rd dayOffset h dow) = Some 0 \<and>
     windDelta (buildScoreData data rd dayOffset h dow) = Some 0 \<and>
     baseloadDelta (buildScoreData data rd dayOffset h dow) = Some 0 \<and>
     demandDelta (buildScoreData data rd dayOffset h dow) = Some 0"
    by (simp add: build_fields)
  have grad: "h \<le> 1 \<longrightarrow>
     pvGradient (buildScoreData data rd dayOffset h dow) = Some 0 \<and>
     windGradient (buildScoreData data rd dayOffset h dow) = Some 0"
    by (simp add: build_fields)
  have missing: "field_at (pvGeneration_series data) (h - 1) = None \<longrightarrow>
     pvDelta (buildScoreData data rd dayOffset h dow) = Some 0"
    "field_at (windGeneration_series data) (h - 1) = None \<longrightarrow>
     windDelta (buildScoreData data rd dayOffset h dow) = Some 0"
    "field_at (fullGenerationData data) ((h - 1) * 4) = None \<longrightarrow>
     baseloadDelta (buildScoreData data rd dayOffset h dow) = Some 0"
    "field_at (systemLoad_series data) (h - 1) = None \<longrightarrow>
     demandDelta (buildScoreData data rd dayOffset h dow) = Some 0"
    by (simp_all add: build_fields or_default_def)
  have missing2: "1 < h \<and> field_at (pvGeneration_series data) (h - 2) = None \<longrightarrow>
     pvGradient (buildScoreData data rd dayOffset h dow) =
       map_option (\<lambda>d. 2 * d) (pvDelta (buildScoreData data rd 0 h dow))"
    "1 < h \<and> field_at (windGeneration_series data) (h - 2) = None \<longrightarrow>
     windGradient (buildScoreData data rd dayOffset h dow) =
       map_option (\<lambda>d. 2 * d) (windDelta (buildScoreData data rd 0 h dow))"
    by (simp_all add: build_fields or_default_def)
  have window: "same_window data data' h \<longrightarrow>
     pvDelta (buildScoreData data rd dayOffset h dow) =
       pvDelta (buildScoreData data' rd' dayOffset h dow') \<and>
     windDelta (buildScoreData data rd dayOffset h dow) =
       windDelta (buildScoreData data' rd' dayOffset h dow') \<and>
     baseloadDelta (buildScoreData data rd dayOffset h dow) =
       baseloadDelta (buildScoreData data' rd' dayOffset h dow') \<and>
     demandDelta (buildScoreData data rd dayOffset h dow) =
       demandDelta (buildScoreData data' rd' dayOffset h dow') \<and>
     pvGradient (buildScoreData data rd dayOffset h dow) =
       pvGradient (buildScoreData data' rd' dayOffset h dow') \<and>
     windGradient (buildScoreData data rd dayOffset h dow) =
       windGradient (buildScoreData data' rd' dayOffset h dow')"
    by (simp add: build_fields same_window_def)
  show ?thesis
    using zero grad missing missing2 window by blast
qed


theorem deltas_from_preceding_hours_witness:
  "pvDelta (buildScoreData grid_example None 3 0 3) = Some 0 \<and>
   windDelta (buildScoreData grid_example None 3 0 3) = Some 0 \<and>
   baseloadDelta (buildScoreData grid_example None 3 0 3) = Some 0 \<and>
   demandDelta (buildScoreData grid_example None 3 0 3) = Some 0 \<and>
   pvGradient (buildScoreData grid_example None 0 1 3) = Some 0 \<and>
   windGradient (buildScoreData grid_example None 0 1 3) = Some 0 \<and>
   field_at (pvGeneration_series grid_example) (1 - 1) = None \<and>
   pvDelta (buildScoreData grid_example None 0 1 3) = Some 0 \<and>
   field_at (pvGeneration_series grid_example) (2 - 2) = None \<and>
   pvGradient (buildScoreData grid_example None 0 2 3) = Some 400 \<and>
   same_window grid_example grid_example_longer 2 \<and>
   pvDelta (buildScoreData grid_example None 0 2 3) =
     pvDelta (buildScoreData grid_example_longer None 0 2 3)"
proof -
  have gap: "field_at (pvGeneration_series grid_example) (1 - 1) = None"
    "field_at (pvGeneration_series grid_example) (2 - 2) = None"
    by (simp_all add: grid_example_at)
  have d: "pvDelta (buildScoreData grid_example None 0 2 3) = Some 200"
    by (simp add: build_pvDelta grid_example_at or_default_def)
  have hour0: "pvDelta (buildScoreData grid_example None 3 0 3) = Some 0 \<and>
     windDelta (buildScoreData grid_example None 3 0 3) = Some 0 \<and>
     baseloadDelta (buildScoreData grid_example None 3 0 3) = Some 0 \<and>
     demandDelta (buildScoreData grid_example None 3 0 3) = Some 0"
    using deltas_from_preceding_hours[where h = 0 and data = grid_example and rd = None
        and dayOffset = 3 and dow = 3]
    by simp
  have hour1: "pvGradient (buildScoreData grid_example None 0 1 3) = Some 0 \<and>
     windGradient (buildScoreData grid_example None 0 1 3) = Some 0 \<and>
     pvDelta (buildScoreData grid_example None 0 1 3) = Some 0"
    using deltas_from_preceding_hours[where h = 1 and data = grid_example and rd = None
        and dayOffset = 0 and dow = 3] gap(1)
    by simp
  have hour2: "pvGradient (buildScoreData grid_example None 0 2 3) = Some 400 \<and>
     pvDelta (buildScoreData grid_example None 0 2 3) =
       pvDelta (buildScoreData grid_example_longer None 0 2 3)"
    using deltas_from_preceding_hours[where h = 2 and data = grid_example and rd = None
        and dayOffset = 0 and dow = 3 and data' = grid_example_longer and rd' = None and dow' = 3]
      gap(2) d grid_example_longer_window
    by simp
  show ?thesis
    using gap hour0 hour1 hour2 grid_example_longer_window by blast
qed

end
